theory Spec2Isabelle
  imports Complex_Main
begin

text \<open>
  A model of the event bus, the agent runtime, the orchestrator and the digital twin
  agent of the platform, function by function, followed by the properties proved of
  them. Mutation is explicit state passing, an exception is a value, and everything the
  code reads from outside (clock, broker, database, consent store) is a parameter.
\<close>

section \<open>Values, errors and the outside world\<close>

text \<open>
  Payloads and stored rows are JSON documents. Python's \<open>int\<close> and \<open>float\<close> are both
  modelled by exact rationals: the arithmetic of the twin engine is read over the
  rationals, so rounding error, infinities and NaN of IEEE doubles are outside the model.
  A dictionary is an association list read with \<open>map_of\<close> (the first binding of a key
  is the one that counts).
\<close>

datatype json =
    JNull
  | JBool bool
  | JNum rat
  | JStr string
  | JList "json list"
  | JObj "(string \<times> json) list"

type_synonym jdict = "(string \<times> json) list"

text \<open>Python's truth value of an object, as used by \<open>not x\<close> and \<open>x or y\<close>.\<close>

fun truthy :: "json \<Rightarrow> bool" where
  "truthy JNull = False"
| "truthy (JBool b) = b"
| "truthy (JNum n) = (n \<noteq> 0)"
| "truthy (JStr s) = (s \<noteq> [])"
| "truthy (JList xs) = (xs \<noteq> [])"
| "truthy (JObj kvs) = (kvs \<noteq> [])"

definition py_or :: "json \<Rightarrow> json \<Rightarrow> json" where
  "py_or a b = (if truthy a then a else b)"

text \<open>\<open>d.get(k, default)\<close>; \<open>d.get(k)\<close> is \<open>dict_get d k JNull\<close>.\<close>

definition dict_get :: "jdict \<Rightarrow> string \<Rightarrow> json \<Rightarrow> json" where
  "dict_get d k dflt = (case map_of d k of None \<Rightarrow> dflt | Some v \<Rightarrow> v)"

datatype error =
    TypeError
  | ValueError
  | KeyError
  | AttributeError
  | RuntimeError
  | ZeroDivisionError
  | BrokerError
  | StoreError

datatype level = DEBUG | INFO | WARNING | ERROR

text \<open>
  A \<open>datetime\<close> is either naive or timezone-aware; both carry seconds since the epoch.
  Comparing or subtracting a naive and an aware one raises \<open>TypeError\<close>.
\<close>

datatype datetime = Naive rat | Aware rat

record consent_record =
  scope :: string
  granted_at :: string
  expires_at :: "string option"

record event =
  ev_topic :: string
  ev_type :: string
  ev_payload :: jdict
  ev_user_id :: json
  ev_correlation_id :: json
  ev_timestamp :: string

text \<open>
  Everything the code reads from outside itself is a field of the world: the clock
  (the k-th reading of the process clock), the instant at which the module
  \<open>common.event_bus\<close> was imported, the text form of datetimes and its parser
  (\<open>None\<close> is \<open>ValueError\<close>), the UUID generator, whether the broker accepts the k-th
  send, the consent store, the parser behind \<open>float(s)\<close> on a string (\<open>None\<close> is
  \<open>ValueError\<close>), the tuples \<open>(ts, value, meta)\<close> the database returns for the SELECT
  of a user, a metric, an optional start and end and a limit (\<open>Inl\<close> when the query
  raises) and whether the k-th INSERT succeeds.
\<close>

record world =
  clock :: "nat \<Rightarrow> rat"
  module_import_time :: rat
  isoformat :: "datetime \<Rightarrow> string"
  fromisoformat :: "string \<Rightarrow> datetime option"
  uuid4 :: "nat \<Rightarrow> string"
  broker_accepts :: "nat \<Rightarrow> bool"
  consent_store :: "string \<rightharpoonup> (string \<rightharpoonup> consent_record)"
  float_of_str :: "string \<Rightarrow> rat option"
  db_select ::
    "json \<Rightarrow> string \<Rightarrow> string option \<Rightarrow> string option \<Rightarrow> nat
       \<Rightarrow> error + (datetime \<times> json \<times> json) list"
  db_insert_ok :: "nat \<Rightarrow> bool"

section \<open>Event bus (common/event\_bus.py)\<close>

text \<open>
  The dataclass field \<open>timestamp: str = datetime.now(timezone.utc).isoformat()\<close> has a
  default that is an expression, not a factory: Python evaluates it when the class body
  runs, that is when the module is imported, and stores the resulting string as the
  default of every later construction.
\<close>

definition Event_timestamp_default :: "world \<Rightarrow> string" where
  "Event_timestamp_default w = isoformat w (Aware (module_import_time w))"

definition Event ::
  "world \<Rightarrow> string \<Rightarrow> string \<Rightarrow> jdict \<Rightarrow> json \<Rightarrow> json \<Rightarrow> string option \<Rightarrow> event" where
  "Event w topic event_type payload uid corr ts =
     \<lparr> ev_topic = topic, ev_type = event_type, ev_payload = payload,
       ev_user_id = uid, ev_correlation_id = corr,
       ev_timestamp = (case ts of None \<Rightarrow> Event_timestamp_default w | Some t \<Rightarrow> t) \<rparr>"


section \<open>Process state\<close>

text \<open>
  One record holds the mutable state of the bus and of the logger: whether the producer
  was started, the events the broker accepted, the number of send attempts and of UUIDs
  drawn, and the log records emitted (an audit record is a log record at info level).
  The state of the digital twin agent is declared further down as an extension of this
  record.
\<close>

record bus_state =
  producer_started :: bool
  sent :: "event list"
  send_attempts :: nat
  uuids_drawn :: nat
  logged :: "(level \<times> string) list"

definition logger :: "level \<Rightarrow> string \<Rightarrow> 'a bus_state_scheme \<Rightarrow> 'a bus_state_scheme" where
  "logger lv msg st = st\<lparr>logged := logged st @ [(lv, msg)]\<rparr>"

text \<open>
  \<open>EventBus.publish\<close>: fails when the producer was never started; a falsy correlation
  id is replaced by a fresh UUID; the event is built without a timestamp argument; the
  send either is accepted by the broker or raises.
\<close>

definition publish ::
  "world \<Rightarrow> 'a bus_state_scheme \<Rightarrow> string \<Rightarrow> string \<Rightarrow> jdict \<Rightarrow> json \<Rightarrow> json
     \<Rightarrow> 'a bus_state_scheme \<times> (error + json)" where
  "publish w st topic event_type payload uid correlation_id =
     (if \<not> producer_started st then (st, Inl RuntimeError)
      else
        let st1 = (if truthy correlation_id then st
                   else st\<lparr>uuids_drawn := Suc (uuids_drawn st)\<rparr>);
            corr = (if truthy correlation_id then correlation_id
                    else JStr (uuid4 w (uuids_drawn st)));
            ev = Event w topic event_type payload uid corr None;
            st2 = st1\<lparr>send_attempts := Suc (send_attempts st1)\<rparr>
        in if broker_accepts w (send_attempts st1)
           then (logger DEBUG ''Published event'' (st2\<lparr>sent := sent st2 @ [ev]\<rparr>), Inr corr)
           else (st2, Inl BrokerError))"

section \<open>Agent runtime (agents/base.py)\<close>

text \<open>
  \<open>BaseAgent.on_error\<close> logs at error level. \<open>BaseAgent._handle_event\<close> is the dispatch
  adapter: it logs receipt, asks the consent guard, drops the event with a warning when
  the guard answers False, and otherwise runs the handler; an exception from the guard
  or the handler is logged (\<open>logger.exception\<close> writes at error level) and passed to
  \<open>on_error\<close>. The dictionary handed to it is always \<open>asdict\<close> of an \<open>Event\<close>, so
  \<open>Event(**event_dict)\<close> rebuilds that event. The guard and the handler are the two
  methods a subclass overrides.
\<close>

definition on_error :: "string \<Rightarrow> error \<Rightarrow> 'a bus_state_scheme \<Rightarrow> 'a bus_state_scheme" where
  "on_error name e st = logger ERROR (''Error in '' @ name) st"

definition handle_event ::
  "string \<Rightarrow> ('a bus_state_scheme \<Rightarrow> event \<Rightarrow> 'a bus_state_scheme \<times> (error + bool))
     \<Rightarrow> ('a bus_state_scheme \<Rightarrow> event \<Rightarrow> 'a bus_state_scheme \<times> error option)
     \<Rightarrow> 'a bus_state_scheme \<Rightarrow> event \<Rightarrow> 'a bus_state_scheme" where
  "handle_event name consent_guard handle st ev =
     (case consent_guard (logger DEBUG (name @ '' received event'') st) ev of
        (st1, Inl e) \<Rightarrow> on_error name e (logger ERROR (''Agent '' @ name @ '' error'') st1)
      | (st1, Inr False) \<Rightarrow> logger WARNING (name @ '' consent guard blocked event'') st1
      | (st1, Inr True) \<Rightarrow>
          (case handle st1 ev of
             (st2, None) \<Rightarrow> st2
           | (st2, Some e) \<Rightarrow>
               on_error name e (logger ERROR (''Agent '' @ name @ '' error'') st2)))"

text \<open>The guard of \<open>BaseAgent\<close>: allow everything.\<close>

definition BaseAgent_consent_guard ::
  "'a bus_state_scheme \<Rightarrow> event \<Rightarrow> 'a bus_state_scheme \<times> (error + bool)" where
  "BaseAgent_consent_guard st ev = (st, Inr True)"

section \<open>Orchestrator (agents/orchestrator.py)\<close>

definition trigger_twin_update ::
  "world \<Rightarrow> 'a bus_state_scheme \<Rightarrow> event \<Rightarrow> 'a bus_state_scheme \<times> (error + json)" where
  "trigger_twin_update w st ev =
     publish w st ''user.twin.update.requested'' ''twin.update''
       [(''reason'', JStr ''new_data''),
        (''source_topic'', JStr (ev_topic ev)),
        (''data_meta'', dict_get (ev_payload ev) ''meta'' (JObj []))]
       (ev_user_id ev) (ev_correlation_id ev)"

definition trigger_protocol_refresh ::
  "world \<Rightarrow> 'a bus_state_scheme \<Rightarrow> event \<Rightarrow> 'a bus_state_scheme \<times> (error + json)" where
  "trigger_protocol_refresh w st ev =
     publish w st ''protocol.generate.requested'' ''protocol.request''
       [(''reason'', JStr ''new_data_or_simulation''),
        (''source_topic'', JStr (ev_topic ev)),
        (''user_context_ref'', dict_get (ev_payload ev) ''user_context_ref'' JNull)]
       (ev_user_id ev) (ev_correlation_id ev)"

definition broadcast_graph_updated ::
  "world \<Rightarrow> 'a bus_state_scheme \<Rightarrow> event \<Rightarrow> 'a bus_state_scheme \<times> (error + json)" where
  "broadcast_graph_updated w st ev =
     publish w st ''knowledge.graph.updated'' ''graph.updated''
       [(''graph_version'', dict_get (ev_payload ev) ''graph_version'' JNull)]
       JNull (ev_correlation_id ev)"

text \<open>Drop the value an awaited call returns, keep the exception if it raised.\<close>

definition raised :: "error + 'b \<Rightarrow> error option" where
  "raised r = (case r of Inl e \<Rightarrow> Some e | Inr _ \<Rightarrow> None)"

definition Orchestrator_handle ::
  "world \<Rightarrow> 'a bus_state_scheme \<Rightarrow> event \<Rightarrow> 'a bus_state_scheme \<times> error option" where
  "Orchestrator_handle w st0 ev =
     (let st = logger INFO ''Orchestrator handling event'' st0
      in if ev_topic ev = ''ingest.wearables.standardized''
            \<or> ev_topic ev = ''ingest.labs.standardized''
         then (case trigger_twin_update w st ev of
                 (st1, Inl e) \<Rightarrow> (st1, Some e)
               | (st1, Inr _) \<Rightarrow>
                   (case trigger_protocol_refresh w st1 ev of (st2, r) \<Rightarrow> (st2, raised r)))
         else if ev_topic ev = ''knowledge.research.import.completed''
         then (case broadcast_graph_updated w st ev of (st1, r) \<Rightarrow> (st1, raised r))
         else if ev_topic ev = ''simulation.vitality.completed''
         then (case trigger_protocol_refresh w st ev of (st1, r) \<Rightarrow> (st1, raised r))
         else if ev_topic ev = ''protocol.review.updated''
         then (st, None)
         else (st, None))"

definition Orchestrator_handle_event ::
  "world \<Rightarrow> 'a bus_state_scheme \<Rightarrow> event \<Rightarrow> 'a bus_state_scheme" where
  "Orchestrator_handle_event w =
     handle_event ''orchestrator'' BaseAgent_consent_guard (Orchestrator_handle w)"


section \<open>Digital twin: data model (agents/digital\_twin\_agent.py)\<close>

text \<open>
  The dataclasses declare their fields as floats, strings and an int, but nothing checks
  a value when a twin is rebuilt from a stored snapshot, so a field holds whatever JSON
  value was stored. The fields are therefore JSON values, and arithmetic on a value that
  is not a number raises \<open>TypeError\<close> as it does in Python.
\<close>

record HealthMetrics =
  hrv :: json
  resting_heart_rate :: json
  sleep_efficiency :: json
  activity_minutes :: json
  steps_daily :: json
  stress_score :: json
  recovery_score :: json

definition HealthMetrics_default :: HealthMetrics where
  "HealthMetrics_default =
     \<lparr> hrv = JNum 35, resting_heart_rate = JNum 70, sleep_efficiency = JNum (85 / 100),
       activity_minutes = JNum 30, steps_daily = JNum 8000, stress_score = JNum (3 / 10),
       recovery_score = JNum (7 / 10) \<rparr>"

record TwinState =
  user_id :: json
  created_at :: json
  updated_at :: json
  metrics :: HealthMetrics
  vitality_score :: json
  biological_age_delta :: json
  trend_indicators :: json
  intervention_efficacy :: json
  last_sync :: json
  version :: json
  last_persistence :: json

text \<open>\<open>TwinState(user_id=.., created_at=.., updated_at=..)\<close> with every other field defaulted.\<close>

definition TwinState_new :: "json \<Rightarrow> json \<Rightarrow> json \<Rightarrow> TwinState" where
  "TwinState_new uid created updated =
     \<lparr> user_id = uid, created_at = created, updated_at = updated,
       metrics = HealthMetrics_default, vitality_score = JNum 0, biological_age_delta = JNum 0,
       trend_indicators = JObj [], intervention_efficacy = JObj [], last_sync = JNull,
       version = JNum 1, last_persistence = JNull \<rparr>"

definition asdict_metrics :: "HealthMetrics \<Rightarrow> json" where
  "asdict_metrics m =
     JObj [(''hrv'', hrv m), (''resting_heart_rate'', resting_heart_rate m),
           (''sleep_efficiency'', sleep_efficiency m), (''activity_minutes'', activity_minutes m),
           (''steps_daily'', steps_daily m), (''stress_score'', stress_score m),
           (''recovery_score'', recovery_score m)]"

definition asdict_twin :: "TwinState \<Rightarrow> json" where
  "asdict_twin t =
     JObj [(''user_id'', user_id t), (''created_at'', created_at t), (''updated_at'', updated_at t),
           (''metrics'', asdict_metrics (metrics t)), (''vitality_score'', vitality_score t),
           (''biological_age_delta'', biological_age_delta t),
           (''trend_indicators'', trend_indicators t),
           (''intervention_efficacy'', intervention_efficacy t), (''last_sync'', last_sync t),
           (''version'', version t), (''last_persistence'', last_persistence t)]"

subsection \<open>Numbers\<close>

text \<open>The numeric value of a Python number; \<open>bool\<close> is a subclass of \<open>int\<close>.\<close>

fun num_of :: "json \<Rightarrow> rat option" where
  "num_of (JNum n) = Some n"
| "num_of (JBool b) = Some (if b then 1 else 0)"
| "num_of _ = None"

text \<open>Arithmetic and ordering against a number: \<open>TypeError\<close> unless the value is a number.\<close>

definition arith :: "json \<Rightarrow> error + rat" where
  "arith v = (case num_of v of None \<Rightarrow> Inl TypeError | Some n \<Rightarrow> Inr n)"

text \<open>\<open>float(value)\<close>: a string is parsed and may raise \<open>ValueError\<close>.\<close>

fun py_float :: "world \<Rightarrow> json \<Rightarrow> error + rat" where
  "py_float w (JNum n) = Inr n"
| "py_float w (JBool b) = Inr (if b then 1 else 0)"
| "py_float w (JStr s) = (case float_of_str w s of None \<Rightarrow> Inl ValueError | Some r \<Rightarrow> Inr r)"
| "py_float w _ = Inl TypeError"

text \<open>
  \<open>round(x, ndigits)\<close> rounds to the nearest multiple of \<open>10 ^ -ndigits\<close>, a tie going to
  the even neighbour.
\<close>

definition round_half_even :: "rat \<Rightarrow> int" where
  "round_half_even x =
     (let f = \<lfloor>x\<rfloor>; d = x - of_int f
      in if d < 1 / 2 then f else if 1 / 2 < d then f + 1 else if even f then f else f + 1)"

definition py_round :: "rat \<Rightarrow> nat \<Rightarrow> rat" where
  "py_round x ndigits = of_int (round_half_even (x * 10 ^ ndigits)) / 10 ^ ndigits"

text \<open>\<open>str.lower()\<close> on the ASCII letters.\<close>

definition lower_char :: "char \<Rightarrow> char" where
  "lower_char c =
     (case map_of (zip ''ABCDEFGHIJKLMNOPQRSTUVWXYZ'' ''abcdefghijklmnopqrstuvwxyz'') c of
        None \<Rightarrow> c
      | Some l \<Rightarrow> l)"

definition lower :: "string \<Rightarrow> string" where
  "lower s = map lower_char s"

subsection \<open>Updates from wearables\<close>

text \<open>
  The \<open>if\<close>/\<open>elif\<close> chain of \<open>_update_from_wearables\<close> for one observation whose value
  is not None. The test \<open>value < 100\<close> is evaluated only when the metric is
  \<open>heart_rate\<close>; when it is False the chain falls through the remaining names, none of
  which matches, and nothing is written.
\<close>

definition update_metric :: "world \<Rightarrow> HealthMetrics \<Rightarrow> string \<Rightarrow> json \<Rightarrow> error + HealthMetrics" where
  "update_metric w m metric val =
     (if metric = ''hrv''
      then (case py_float w val of Inl e \<Rightarrow> Inl e
            | Inr v \<Rightarrow> Inr (m\<lparr>hrv := JNum (max 20 (min 100 v))\<rparr>))
      else case (if metric = ''heart_rate''
                 then (case arith val of Inl e \<Rightarrow> Inl e | Inr v \<Rightarrow> Inr (v < 100))
                 else Inr False) of
        Inl e \<Rightarrow> Inl e
      | Inr True \<Rightarrow>
          (case py_float w val of Inl e \<Rightarrow> Inl e
           | Inr v \<Rightarrow> Inr (m\<lparr>resting_heart_rate := JNum (max 40 (min 100 v))\<rparr>))
      | Inr False \<Rightarrow>
          if metric = ''sleep_efficiency''
          then (case py_float w val of Inl e \<Rightarrow> Inl e
                | Inr v \<Rightarrow> Inr (m\<lparr>sleep_efficiency := JNum (max 0 (min 1 v))\<rparr>))
          else if metric = ''activity_minutes''
          then (case py_float w val of Inl e \<Rightarrow> Inl e
                | Inr v \<Rightarrow> Inr (m\<lparr>activity_minutes := JNum (max 0 (min 240 v))\<rparr>))
          else if metric = ''steps''
          then (case py_float w val of Inl e \<Rightarrow> Inl e
                | Inr v \<Rightarrow> Inr (m\<lparr>steps_daily := JNum (max 0 v)\<rparr>))
          else if metric = ''stress_score''
          then (case py_float w val of Inl e \<Rightarrow> Inl e
                | Inr v \<Rightarrow> Inr (m\<lparr>stress_score := JNum (max 0 (min 1 v))\<rparr>))
          else if metric = ''recovery_score''
          then (case py_float w val of Inl e \<Rightarrow> Inl e
                | Inr v \<Rightarrow> Inr (m\<lparr>recovery_score := JNum (max 0 (min 1 v))\<rparr>))
          else Inr m)"

text \<open>
  The body of the loop for one item of \<open>data\<close>. An item that is not a dict or has no
  \<open>fhir\<close> key is skipped; \<open>.get\<close> on something that is not a dict and \<open>.lower()\<close> on
  something that is not a string raise \<open>AttributeError\<close>.
\<close>

definition update_from_item :: "world \<Rightarrow> HealthMetrics \<Rightarrow> json \<Rightarrow> error + HealthMetrics" where
  "update_from_item w m item =
     (case item of
        JObj d \<Rightarrow>
          (case map_of d ''fhir'' of
             None \<Rightarrow> Inr m
           | Some (JObj fhir_obs) \<Rightarrow>
               (case dict_get fhir_obs ''code'' (JObj []) of
                  JObj code \<Rightarrow>
                    (case dict_get code ''text'' (JStr []) of
                       JStr text \<Rightarrow>
                         (case dict_get fhir_obs ''valueQuantity'' (JObj []) of
                            JObj vq \<Rightarrow>
                              (let metric = lower text; val = dict_get vq ''value'' JNull
                               in if val = JNull then Inr m else update_metric w m metric val)
                          | _ \<Rightarrow> Inl AttributeError)
                     | _ \<Rightarrow> Inl AttributeError)
                | _ \<Rightarrow> Inl AttributeError)
           | Some _ \<Rightarrow> Inl AttributeError)
      | _ \<Rightarrow> Inr m)"

text \<open>
  The loop: an exception leaves the writes of the earlier items in place. The result is
  the object as mutated, and the exception if one was raised.
\<close>

fun update_items :: "world \<Rightarrow> HealthMetrics \<Rightarrow> json list \<Rightarrow> HealthMetrics \<times> error option" where
  "update_items w m [] = (m, None)"
| "update_items w m (item # rest) =
     (case update_from_item w m item of
        Inl e \<Rightarrow> (m, Some e)
      | Inr m' \<Rightarrow> update_items w m' rest)"

text \<open>
  \<open>for item in data\<close>: a list yields its items; a dict yields its keys and a string its
  characters, none of which is a dict, so nothing is written; anything else is not
  iterable.
\<close>

definition update_from_wearables :: "world \<Rightarrow> TwinState \<Rightarrow> event \<Rightarrow> TwinState \<times> error option" where
  "update_from_wearables w twin ev =
     (case dict_get (ev_payload ev) ''data'' (JList []) of
        JList items \<Rightarrow>
          (case update_items w (metrics twin) items of (m, e) \<Rightarrow> (twin\<lparr>metrics := m\<rparr>, e))
      | JObj _ \<Rightarrow> (twin, None)
      | JStr _ \<Rightarrow> (twin, None)
      | _ \<Rightarrow> (twin, Some TypeError))"

subsection \<open>Documented ranges\<close>



subsection \<open>Updates from laboratory results\<close>

text \<open>
  One biomarker: the value under the first name, or else under the second
  (\<open>a or b\<close>, so a first value of zero gives way to the second); below the low threshold
  or above the high one it contributes a delta, in between nothing.
\<close>

definition lab_factor ::
  "jdict \<Rightarrow> string \<Rightarrow> string \<Rightarrow> (rat \<Rightarrow> rat option) \<Rightarrow> error + rat list" where
  "lab_factor biomarkers k1 k2 table =
     (let x = py_or (dict_get biomarkers k1 JNull) (dict_get biomarkers k2 JNull)
      in if x = JNull then Inr []
         else case arith x of
                Inl e \<Rightarrow> Inl e
              | Inr v \<Rightarrow> Inr (case table v of None \<Rightarrow> [] | Some d \<Rightarrow> [d]))"

definition crp_table :: "rat \<Rightarrow> rat option" where
  "crp_table v = (if v < 1 then Some (- 1) else if 3 < v then Some 2 else None)"

definition hba1c_table :: "rat \<Rightarrow> rat option" where
  "hba1c_table v =
     (if v < 54 / 10 then Some (- (1 / 2)) else if 57 / 10 < v then Some (3 / 2) else None)"

definition vit_d_table :: "rat \<Rightarrow> rat option" where
  "vit_d_table v = (if 40 < v then Some (- (3 / 10)) else if v < 20 then Some 1 else None)"

definition update_from_labs :: "TwinState \<Rightarrow> event \<Rightarrow> TwinState \<times> error option" where
  "update_from_labs twin ev =
     (case dict_get (ev_payload ev) ''biomarkers'' (JObj []) of
        JObj biomarkers \<Rightarrow>
          (case lab_factor biomarkers ''crp'' ''c-reactive protein'' crp_table of
             Inl e \<Rightarrow> (twin, Some e)
           | Inr f1 \<Rightarrow>
               (case lab_factor biomarkers ''hba1c'' ''a1c'' hba1c_table of
                  Inl e \<Rightarrow> (twin, Some e)
                | Inr f2 \<Rightarrow>
                    (case lab_factor biomarkers ''vitamin d'' ''25-hydroxyvitamin d'' vit_d_table of
                       Inl e \<Rightarrow> (twin, Some e)
                     | Inr f3 \<Rightarrow>
                         (let age_factors = f1 @ f2 @ f3
                          in if age_factors \<noteq> []
                             then (twin\<lparr>biological_age_delta :=
                                      JNum (sum_list age_factors / of_nat (length age_factors))\<rparr>,
                                   None)
                             else (twin, None)))))
      | _ \<Rightarrow> (twin, Some AttributeError))"

subsection \<open>Vitality score\<close>

definition VITALITY_WEIGHTS :: "(string \<times> rat) list" where
  "VITALITY_WEIGHTS =
     [(''hrv'', 25 / 100), (''sleep_efficiency'', 20 / 100), (''activity'', 20 / 100),
      (''recovery'', 15 / 100), (''stress'', 10 / 100), (''rhr'', 10 / 100)]"

definition weight :: "string \<Rightarrow> rat" where
  "weight k = the (map_of VITALITY_WEIGHTS k)"

text \<open>
  The value \<open>_calculate_vitality_score\<close> assigns to \<open>twin.vitality_score\<close>, from the six
  metrics it reads; a metric that is not a number makes the arithmetic raise.
\<close>

definition vitality :: "HealthMetrics \<Rightarrow> error + rat" where
  "vitality m =
     (case (num_of (hrv m), num_of (sleep_efficiency m), num_of (activity_minutes m),
            num_of (recovery_score m), num_of (stress_score m), num_of (resting_heart_rate m)) of
        (Some h, Some sl, Some a, Some r, Some st, Some rh) \<Rightarrow>
          (let hrv_score = max 0 (min 1 ((h - 20) / 80));
               sleep_score = sl;
               activity_score = min (a / 60) 1;
               recovery = r;
               stress = 1 - st;
               rhr_score = max 0 (min 1 (1 - (rh - 40) / 60));
               v = hrv_score * weight ''hrv'' + sleep_score * weight ''sleep_efficiency''
                   + activity_score * weight ''activity'' + recovery * weight ''recovery''
                   + stress * weight ''stress'' + rhr_score * weight ''rhr''
           in Inr (max 0 (min 1 v)))
      | _ \<Rightarrow> Inl TypeError)"

definition calculate_vitality_score :: "TwinState \<Rightarrow> TwinState \<times> error option" where
  "calculate_vitality_score twin =
     (case vitality (metrics twin) of
        Inl e \<Rightarrow> (twin, Some e)
      | Inr v \<Rightarrow> (twin\<lparr>vitality_score := JNum v\<rparr>, None))"

section \<open>Time-series store client (common/persistence/timeseries\_client.py)\<close>

text \<open>
  \<open>TimeseriesClient.query\<close>: an empty or missing start or end adds no filter; every
  tuple the database returns becomes a dict whose \<open>ts\<close> is the text of the stored
  instant.
\<close>

definition nonempty :: "string option \<Rightarrow> string option" where
  "nonempty s = (case s of None \<Rightarrow> None | Some t \<Rightarrow> (if t = [] then None else Some t))"

definition ts_query ::
  "world \<Rightarrow> json \<Rightarrow> string \<Rightarrow> string option \<Rightarrow> string option \<Rightarrow> nat \<Rightarrow> error + jdict list" where
  "ts_query w uid metric start end limit =
     (case db_select w uid metric (nonempty start) (nonempty end) limit of
        Inl e \<Rightarrow> Inl e
      | Inr rows \<Rightarrow>
          Inr (map (\<lambda>(t, v, m). [(''ts'', JStr (isoformat w t)), (''value'', v), (''meta'', m)])
                 rows))"

section \<open>Digital twin: agent state\<close>

text \<open>
  The agent adds to the process state: the number of clock readings taken, the registry
  \<open>_twins\<close>, the registry \<open>_persistence_tasks\<close> (user to task), the tasks created so
  far with their status, the number of INSERTs attempted and the rows written. A twin is
  one object, shared by the registry and by every persistence task created for it; the
  model keeps it in the registry and lets a task name its user.
\<close>

datatype task_status = Pending | Cancelled | Finished

record task =
  task_user :: json
  status :: task_status

record agent_state = bus_state +
  ticks :: nat
  twins :: "json \<rightharpoonup> TwinState"
  persistence_tasks :: "json \<rightharpoonup> nat"
  tasks :: "task list"
  db_inserts :: nat
  db_written :: "jdict list"

text \<open>
  Dictionary keys: lists and dicts are unhashable (\<open>TypeError\<close>), and \<open>True\<close> and
  \<open>False\<close> are the keys 1 and 0.
\<close>

fun hashable :: "json \<Rightarrow> bool" where
  "hashable (JList _) = False"
| "hashable (JObj _) = False"
| "hashable _ = True"

fun hkey :: "json \<Rightarrow> json" where
  "hkey (JBool b) = JNum (if b then 1 else 0)"
| "hkey v = v"

text \<open>\<open>d[k] = v\<close> on a dict: an existing key keeps its place.\<close>

fun dict_set :: "jdict \<Rightarrow> string \<Rightarrow> json \<Rightarrow> jdict" where
  "dict_set [] k v = [(k, v)]"
| "dict_set ((k', v') # kvs) k v =
     (if k' = k then (k, v) # kvs else (k', v') # dict_set kvs k v)"

text \<open>A step on the twin and the process; sequencing stops at the first exception.\<close>

type_synonym ctx = "TwinState \<times> agent_state"

definition seq :: "ctx \<times> error option \<Rightarrow> (ctx \<Rightarrow> ctx \<times> error option) \<Rightarrow> ctx \<times> error option" where
  "seq r f = (case r of (c, None) \<Rightarrow> f c | (c, Some e) \<Rightarrow> (c, Some e))"

definition on_twin :: "(TwinState \<Rightarrow> TwinState \<times> error option) \<Rightarrow> ctx \<Rightarrow> ctx \<times> error option" where
  "on_twin f c = (case c of (twin, st) \<Rightarrow> (case f twin of (twin', e) \<Rightarrow> ((twin', st), e)))"

definition utcnow :: "world \<Rightarrow> agent_state \<Rightarrow> rat \<times> agent_state" where
  "utcnow w st = (clock w (ticks st), st\<lparr>ticks := Suc (ticks st)\<rparr>)"

section \<open>Digital twin: trends\<close>

definition replace_Z :: "string \<Rightarrow> string" where
  "replace_Z s = concat (map (\<lambda>c. if c = CHR ''Z'' then ''+00:00'' else [c]) s)"

text \<open>
  \<open>datetime.timestamp()\<close>; the process is taken to run in UTC, so a naive datetime is
  read as UTC.
\<close>

fun timestamp :: "datetime \<Rightarrow> rat" where
  "timestamp (Naive t) = t"
| "timestamp (Aware t) = t"

text \<open>
  The inner loop over the rows. The inner \<open>try\<close> catches \<open>ValueError\<close>, \<open>TypeError\<close>
  and \<open>KeyError\<close> and goes on with the next row; \<open>.replace\<close> on a \<open>ts\<close> that is not a
  string raises \<open>AttributeError\<close>, which leaves the loop. The timestamp is appended
  before \<open>d["value"]\<close> is read, so a row without a value still contributes its
  timestamp.
\<close>

fun collect_points ::
  "world \<Rightarrow> jdict list \<Rightarrow> rat list \<Rightarrow> json list \<Rightarrow> error + rat list \<times> json list" where
  "collect_points w [] timestamps vals = Inr (timestamps, vals)"
| "collect_points w (d # ds) timestamps vals =
     (case map_of d ''ts'' of
        None \<Rightarrow> collect_points w ds timestamps vals
      | Some (JStr s) \<Rightarrow>
          (case fromisoformat w (replace_Z s) of
             None \<Rightarrow> collect_points w ds timestamps vals
           | Some ts \<Rightarrow>
               (case map_of d ''value'' of
                  None \<Rightarrow> collect_points w ds (timestamps @ [timestamp ts]) vals
                | Some v \<Rightarrow> collect_points w ds (timestamps @ [timestamp ts]) (vals @ [v])))
      | Some _ \<Rightarrow> Inl AttributeError)"

text \<open>\<open>sum(values)\<close>: \<open>TypeError\<close> on a value that is not a number.\<close>

fun py_sum :: "json list \<Rightarrow> error + rat" where
  "py_sum [] = Inr 0"
| "py_sum (v # vs) =
     (case num_of v of
        None \<Rightarrow> Inl TypeError
      | Some x \<Rightarrow> (case py_sum vs of Inl e \<Rightarrow> Inl e | Inr s \<Rightarrow> Inr (x + s)))"

definition clamp1 :: "rat \<Rightarrow> rat" where
  "clamp1 x = max (- 1) (min 1 x)"

definition normalize_trend :: "string \<Rightarrow> rat \<Rightarrow> rat" where
  "normalize_trend metric daily_change =
     (if metric = ''hrv'' then clamp1 (daily_change / 5)
      else if metric = ''sleep_efficiency'' then clamp1 (daily_change / (5 / 100))
      else if metric = ''activity_minutes'' then clamp1 (daily_change / 10)
      else if metric = ''stress_score'' then clamp1 (- daily_change / (1 / 10))
      else clamp1 daily_change)"

text \<open>
  The regression of one metric, from the collected timestamps and values: the value to
  store, or nothing when there are fewer than two timestamps or the timestamps do not
  vary. \<open>zip\<close> stops at the shorter list.
\<close>

definition trend_of_points :: "string \<Rightarrow> rat list \<Rightarrow> json list \<Rightarrow> error + rat option" where
  "trend_of_points metric timestamps vals =
     (if 1 < length timestamps
      then (let n = of_nat (length timestamps);
                t_mean = sum_list timestamps / n
            in case py_sum vals of
                 Inl e \<Rightarrow> Inl e
               | Inr sv \<Rightarrow>
                   (let v_mean = sv / n;
                        numerator = sum_list (map (\<lambda>(t, v). (t - t_mean) * (the (num_of v) - v_mean))
                                                (zip timestamps vals));
                        denominator = sum_list (map (\<lambda>t. (t - t_mean) ^ 2) timestamps)
                    in if 0 < denominator
                       then (let slope = numerator / denominator;
                                 daily_change = slope * 86400
                             in Inr (Some (py_round (normalize_trend metric daily_change) 3)))
                       else Inr None))
      else Inr None)"


text \<open>
  The body of the loop over the trended metrics, inside its \<open>try\<close>: the value to store
  under \<open>metric_trend\<close>, if any; an exception is caught by the loop and logged.
\<close>

definition trend_value ::
  "world \<Rightarrow> json \<Rightarrow> string \<Rightarrow> string \<Rightarrow> string \<Rightarrow> error + rat option" where
  "trend_value w uid metric start end =
     (case ts_query w uid metric (Some start) (Some end) 1000 of
        Inl e \<Rightarrow> Inl e
      | Inr data \<Rightarrow>
          if 5 < length data
          then (case collect_points w data [] [] of
                  Inl e \<Rightarrow> Inl e
                | Inr (timestamps, vals) \<Rightarrow> trend_of_points metric timestamps vals)
          else Inr None)"

definition trend_step :: "world \<Rightarrow> string \<Rightarrow> string \<Rightarrow> ctx \<Rightarrow> string \<Rightarrow> ctx" where
  "trend_step w start end c metric =
     (case c of (twin, st) \<Rightarrow>
        (case trend_value w (user_id twin) metric start end of
           Inl e \<Rightarrow> (twin, logger DEBUG (''Could not calculate trend for '' @ metric) st)
         | Inr None \<Rightarrow> (twin, st)
         | Inr (Some x) \<Rightarrow>
             (case trend_indicators twin of
                JObj kvs \<Rightarrow>
                  (twin\<lparr>trend_indicators := JObj (dict_set kvs (metric @ ''_trend'') (JNum x))\<rparr>, st)
              | _ \<Rightarrow> (twin, logger DEBUG (''Could not calculate trend for '' @ metric) st))))"

definition metrics_to_trend :: "string list" where
  "metrics_to_trend = [''hrv'', ''sleep_efficiency'', ''activity_minutes'', ''stress_score'']"

definition calculate_trends :: "world \<Rightarrow> ctx \<Rightarrow> ctx" where
  "calculate_trends w c =
     (case c of (twin, st) \<Rightarrow>
        (case utcnow w st of (end_date, st1) \<Rightarrow>
           (let start_date = end_date - 30 * 86400
            in foldl (trend_step w (isoformat w (Naive start_date)) (isoformat w (Naive end_date)))
                 (twin, st1) metrics_to_trend)))"

section \<open>Digital twin: persistence\<close>

definition persistence_interval_seconds :: rat where
  "persistence_interval_seconds = 300"

text \<open>
  The decision of \<open>_schedule_persistence\<close>. \<open>now\<close> is naive (\<open>datetime.utcnow()\<close>);
  parsing something that is not a string, or subtracting an aware datetime from it,
  raises \<open>TypeError\<close>, and an unparseable string \<open>ValueError\<close>: both are caught and
  mean persist.
\<close>

definition should_persist :: "world \<Rightarrow> rat \<Rightarrow> TwinState \<Rightarrow> bool" where
  "should_persist w now twin =
     (case last_persistence twin of
        JNull \<Rightarrow> True
      | JStr s \<Rightarrow>
          (case fromisoformat w s of
             None \<Rightarrow> True
           | Some (Naive last_persist_time) \<Rightarrow>
               persistence_interval_seconds \<le> now - last_persist_time
           | Some (Aware _) \<Rightarrow> True)
      | _ \<Rightarrow> True)"

text \<open>\<open>Task.cancel()\<close>: a task that has not run yet is cancelled, a finished one is left alone.\<close>

definition cancel :: "task \<Rightarrow> task" where
  "cancel t = (if status t = Pending then t\<lparr>status := Cancelled\<rparr> else t)"

definition schedule_persistence :: "world \<Rightarrow> ctx \<Rightarrow> ctx" where
  "schedule_persistence w c =
     (case c of (twin, st) \<Rightarrow>
        (case utcnow w st of (now, st1) \<Rightarrow>
           if should_persist w now twin
           then (let k = hkey (user_id twin);
                     st2 = (case persistence_tasks st1 k of
                              None \<Rightarrow> st1
                            | Some i \<Rightarrow> st1\<lparr>tasks := (tasks st1)[i := cancel (tasks st1 ! i)]\<rparr>);
                     st3 = st2\<lparr>tasks := tasks st2 @ [\<lparr>task_user = k, status = Pending\<rparr>],
                               persistence_tasks := (persistence_tasks st2)(k \<mapsto> length (tasks st2))\<rparr>
                 in (twin\<lparr>last_persistence := JStr (isoformat w (Naive now))\<rparr>, st3))
           else (twin, st1)))"

text \<open>
  \<open>_persist_twin_state\<close>, the body of a persistence task, run by the event loop at some
  later point on the twin as it then is. A task that is not pending does not run. A
  failed INSERT is caught, logged, and resets \<open>last_persistence\<close>.
\<close>

definition persist_twin_state :: "world \<Rightarrow> agent_state \<Rightarrow> nat \<Rightarrow> agent_state" where
  "persist_twin_state w st i =
     (if i < length (tasks st) \<and> status (tasks st ! i) = Pending
      then (let k = task_user (tasks st ! i);
                st1 = st\<lparr>tasks := (tasks st)[i := (tasks st ! i)\<lparr>status := Finished\<rparr>]\<rparr>
            in case twins st1 k of
                 None \<Rightarrow> st1
               | Some twin \<Rightarrow>
                   (let st2 = st1\<lparr>db_inserts := Suc (db_inserts st1)\<rparr>
                    in if db_insert_ok w (db_inserts st1)
                       then logger DEBUG ''Persisted twin state''
                              (logger INFO ''Inserted 1 measurements''
                                 (st2\<lparr>db_written := db_written st2 @
                                        [[(''user_id'', user_id twin), (''metric'', JStr ''twin_state''),
                                          (''ts'', updated_at twin), (''value'', vitality_score twin),
                                          (''meta'', JObj [(''state'', asdict_twin twin),
                                                           (''version'', version twin),
                                                           (''persistence_type'', JStr ''scheduled'')])]]\<rparr>))
                       else logger ERROR ''Failed to persist twin state''
                              (st2\<lparr>twins := (twins st2)(k \<mapsto> twin\<lparr>last_persistence := JNull\<rparr>)\<rparr>)))
      else st)"

text \<open>
  The discipline the task registry is meant to keep: every task that has not run yet is
  the one registered for its user, so no user has two pending writes.
\<close>

definition single_writer :: "agent_state \<Rightarrow> bool" where
  "single_writer st =
     list_all (\<lambda>i. status (tasks st ! i) = Pending
                   \<longrightarrow> persistence_tasks st (task_user (tasks st ! i)) = Some i)
       [0..<length (tasks st)]"

section \<open>Digital twin: loading a snapshot\<close>

definition HealthMetrics_fields :: "string list" where
  "HealthMetrics_fields =
     [''hrv'', ''resting_heart_rate'', ''sleep_efficiency'', ''activity_minutes'',
      ''steps_daily'', ''stress_score'', ''recovery_score'']"

text \<open>
  \<open>HealthMetrics(**metrics_dict)\<close>: \<open>TypeError\<close> (here \<open>None\<close>) when the argument is not
  a mapping or has a key that is not a field; a missing field takes its default; no value
  is checked.
\<close>

definition HealthMetrics_kwargs :: "json \<Rightarrow> HealthMetrics option" where
  "HealthMetrics_kwargs metrics_dict =
     (case metrics_dict of
        JObj d \<Rightarrow>
          (if list_all (\<lambda>k. k \<in> set HealthMetrics_fields) (map fst d)
           then Some \<lparr> hrv = dict_get d ''hrv'' (hrv HealthMetrics_default),
                       resting_heart_rate =
                         dict_get d ''resting_heart_rate'' (resting_heart_rate HealthMetrics_default),
                       sleep_efficiency =
                         dict_get d ''sleep_efficiency'' (sleep_efficiency HealthMetrics_default),
                       activity_minutes =
                         dict_get d ''activity_minutes'' (activity_minutes HealthMetrics_default),
                       steps_daily = dict_get d ''steps_daily'' (steps_daily HealthMetrics_default),
                       stress_score = dict_get d ''stress_score'' (stress_score HealthMetrics_default),
                       recovery_score =
                         dict_get d ''recovery_score'' (recovery_score HealthMetrics_default) \<rparr>
           else None)
      | _ \<Rightarrow> None)"

text \<open>
  The part of \<open>_load_twin_state\<close> that turns the rows of the query into a twin;
  \<open>Inl\<close> is an exception, which the caller's \<open>except\<close> turns into \<open>None\<close>, and
  \<open>Inr None\<close> is the \<open>return None\<close> at the end.
\<close>

definition twin_of_rows :: "json \<Rightarrow> jdict list \<Rightarrow> error + TwinState option" where
  "twin_of_rows uid data =
     (case data of
        [] \<Rightarrow> Inr None
      | row # _ \<Rightarrow>
          (case dict_get row ''meta'' (JObj []) of
             JObj meta \<Rightarrow>
               (let state = dict_get meta ''state'' JNull
                in if truthy state
                   then (case state of
                           JObj state_dict \<Rightarrow>
                             (case HealthMetrics_kwargs (dict_get state_dict ''metrics'' (JObj [])) of
                                None \<Rightarrow> Inl TypeError
                              | Some m \<Rightarrow>
                                  Inr (Some
                                    \<lparr> user_id = uid,
                                      created_at = dict_get state_dict ''created_at'' JNull,
                                      updated_at = dict_get state_dict ''updated_at'' JNull,
                                      metrics = m,
                                      vitality_score = dict_get state_dict ''vitality_score'' (JNum 0),
                                      biological_age_delta =
                                        dict_get state_dict ''biological_age_delta'' (JNum 0),
                                      trend_indicators =
                                        dict_get state_dict ''trend_indicators'' (JObj []),
                                      intervention_efficacy =
                                        dict_get state_dict ''intervention_efficacy'' (JObj []),
                                      last_sync = dict_get state_dict ''last_sync'' JNull,
                                      version = dict_get state_dict ''version'' (JNum 1),
                                      last_persistence =
                                        dict_get state_dict ''last_persistence'' JNull \<rparr>))
                         | _ \<Rightarrow> Inl AttributeError)
                   else Inr None)
           | _ \<Rightarrow> Inl AttributeError))"

definition load_twin_state :: "world \<Rightarrow> agent_state \<Rightarrow> json \<Rightarrow> agent_state \<times> TwinState option" where
  "load_twin_state w st uid =
     (case ts_query w uid ''twin_state'' None None 1 of
        Inl e \<Rightarrow> (logger ERROR ''Failed to load twin state'' st, None)
      | Inr data \<Rightarrow>
          (case twin_of_rows uid data of
             Inl e \<Rightarrow> (logger ERROR ''Failed to load twin state'' st, None)
           | Inr None \<Rightarrow> (st, None)
           | Inr (Some twin) \<Rightarrow> (logger DEBUG ''Loaded twin state'' st, Some twin)))"

text \<open>\<open>_get_or_create_twin\<close>; \<open>user_id in self._twins\<close> raises on an unhashable id.\<close>

definition get_or_create_twin ::
  "world \<Rightarrow> agent_state \<Rightarrow> json \<Rightarrow> agent_state \<times> (error + TwinState)" where
  "get_or_create_twin w st uid =
     (if \<not> hashable uid then (st, Inl TypeError)
      else case twins st (hkey uid) of
             Some twin \<Rightarrow> (st, Inr twin)
           | None \<Rightarrow>
               (case load_twin_state w st uid of
                  (st1, Some twin) \<Rightarrow> (st1\<lparr>twins := (twins st1)(hkey uid \<mapsto> twin)\<rparr>, Inr twin)
                | (st1, None) \<Rightarrow>
                    (case utcnow w st1 of (t, st2) \<Rightarrow>
                       (let now = JStr (isoformat w (Naive t));
                            twin = TwinState_new uid now now
                        in (st2\<lparr>twins := (twins st2)(hkey uid \<mapsto> twin)\<rparr>, Inr twin)))))"

section \<open>Consent store (common/privacy/consent.py)\<close>

text \<open>
  \<open>ConsentStore.check\<close>. The store is keyed by strings, so any other hashable id has no
  record. The clock is read only when the record has a non-empty expiry; the expiry is
  compared with an aware \<open>now\<close>, so a naive expiry raises \<open>TypeError\<close> and an unparseable
  one \<open>ValueError\<close>.
\<close>

definition check :: "world \<Rightarrow> agent_state \<Rightarrow> json \<Rightarrow> string \<Rightarrow> agent_state \<times> (error + bool)" where
  "check w st uid purpose =
     (if \<not> hashable uid then (st, Inl TypeError)
      else case (case uid of JStr u \<Rightarrow> consent_store w u | _ \<Rightarrow> None) of
             None \<Rightarrow> (st, Inr False)
           | Some purposes \<Rightarrow>
               (case purposes purpose of
                  None \<Rightarrow> (st, Inr False)
                | Some record \<Rightarrow>
                    (case nonempty (expires_at record) of
                       None \<Rightarrow> (st, Inr True)
                     | Some x \<Rightarrow>
                         (case fromisoformat w x of
                            None \<Rightarrow> (st, Inl ValueError)
                          | Some (Naive _) \<Rightarrow>
                              (case utcnow w st of (now, st1) \<Rightarrow> (st1, Inl TypeError))
                          | Some (Aware t) \<Rightarrow>
                              (case utcnow w st of (now, st1) \<Rightarrow>
                                 (st1, Inr (\<not> t \<le> now)))))))"

section \<open>Digital twin: the agent\<close>

definition DigitalTwinAgent_consent_guard ::
  "world \<Rightarrow> agent_state \<Rightarrow> event \<Rightarrow> agent_state \<times> (error + bool)" where
  "DigitalTwinAgent_consent_guard w st ev =
     (if \<not> truthy (ev_user_id ev) then (st, Inr True)
      else check w st (ev_user_id ev) ''personalization'')"

definition recalculate_twin :: "world \<Rightarrow> event \<Rightarrow> ctx \<Rightarrow> ctx \<times> error option" where
  "recalculate_twin w ev c =
     seq (on_twin calculate_vitality_score c)
       (\<lambda>c1. case calculate_trends w c1 of (twin, st) \<Rightarrow>
          (case dict_get (ev_payload ev) ''context'' (JObj []) of
             JObj context \<Rightarrow>
               if dict_get context ''trigger'' JNull = JStr ''intervention_change''
               then (case publish w st ''simulation.vitality.requested'' ''simulation.request''
                            [(''user_id'', user_id twin),
                             (''current_vitality'', vitality_score twin),
                             (''sleep_minutes_delta'', JNum 0),
                             (''activity_minutes_delta'', JNum 0),
                             (''stress_reduction'', JNum 0)]
                            (user_id twin) (ev_correlation_id ev) of
                       (st1, r) \<Rightarrow> ((twin, st1), raised r))
               else ((twin, st), None)
           | _ \<Rightarrow> ((twin, st), Some AttributeError)))"

text \<open>The dispatch on the topic at the head of \<open>handle\<close>.\<close>

definition apply_update :: "world \<Rightarrow> event \<Rightarrow> ctx \<Rightarrow> ctx \<times> error option" where
  "apply_update w ev c =
     (if ev_topic ev = ''ingest.wearables.standardized''
      then on_twin (\<lambda>twin. update_from_wearables w twin ev) c
      else if ev_topic ev = ''ingest.labs.standardized''
      then on_twin (\<lambda>twin. update_from_labs twin ev) c
      else if ev_topic ev = ''user.twin.update.requested''
      then recalculate_twin w ev c
      else (c, None))"

text \<open>\<open>twin.updated_at = datetime.utcnow().isoformat()\<close> and \<open>twin.version += 1\<close>.\<close>

definition touch :: "world \<Rightarrow> ctx \<Rightarrow> ctx \<times> error option" where
  "touch w c =
     (case c of (twin, st) \<Rightarrow>
        (case utcnow w st of (t, st1) \<Rightarrow>
           (let twin1 = twin\<lparr>updated_at := JStr (isoformat w (Naive t))\<rparr>
            in case arith (version twin1) of
                 Inl e \<Rightarrow> ((twin1, st1), Some e)
               | Inr n \<Rightarrow> ((twin1\<lparr>version := JNum (n + 1)\<rparr>, st1), None))))"

text \<open>
  The audit record (a log record at info level) and the summary event on
  \<open>user.twin.updated\<close>; \<open>round\<close> raises on a value that is not a number.
\<close>

definition announce :: "world \<Rightarrow> json \<Rightarrow> event \<Rightarrow> ctx \<Rightarrow> ctx \<times> error option" where
  "announce w uid ev c =
     (case c of (twin, st) \<Rightarrow>
        (case arith (vitality_score twin) of
           Inl e \<Rightarrow> ((twin, st), Some e)
         | Inr v \<Rightarrow>
             (let st1 = logger INFO ''AUDIT twin.updated'' st
              in case arith (biological_age_delta twin) of
                   Inl e \<Rightarrow> ((twin, st1), Some e)
                 | Inr d \<Rightarrow>
                     (case publish w st1 ''user.twin.updated'' ''twin.updated''
                             [(''user_id'', uid),
                              (''vitality_score'', JNum (py_round v 3)),
                              (''biological_age_delta'', JNum (py_round d 1)),
                              (''metrics'', asdict_metrics (metrics twin)),
                              (''trends'', trend_indicators twin),
                              (''version'', version twin)]
                             uid (ev_correlation_id ev) of
                        (st2, r) \<Rightarrow> ((twin, st2), raised r)))))"

text \<open>
  \<open>DigitalTwinAgent.handle\<close>. The twin is in the registry from \<open>_get_or_create_twin\<close> on
  and is mutated in place, so whatever was written before an exception stays written.
\<close>

definition DigitalTwinAgent_handle :: "world \<Rightarrow> agent_state \<Rightarrow> event \<Rightarrow> agent_state \<times> error option" where
  "DigitalTwinAgent_handle w st ev =
     (let uid = py_or (py_or (ev_user_id ev) (dict_get (ev_payload ev) ''user_id'' JNull))
                  (JStr ''unknown'')
      in case get_or_create_twin w st uid of
           (st1, Inl e) \<Rightarrow> (st1, Some e)
         | (st1, Inr twin) \<Rightarrow>
             (case seq (seq (seq (seq (seq (apply_update w ev (twin, st1))
                                        (on_twin calculate_vitality_score))
                                   (\<lambda>c. (calculate_trends w c, None)))
                              (touch w))
                         (\<lambda>c. (schedule_persistence w c, None)))
                    (announce w uid ev) of
                ((twin', st'), e) \<Rightarrow> (st'\<lparr>twins := (twins st')(hkey uid \<mapsto> twin')\<rparr>, e)))"

definition DigitalTwinAgent_handle_event :: "world \<Rightarrow> agent_state \<Rightarrow> event \<Rightarrow> agent_state" where
  "DigitalTwinAgent_handle_event w =
     handle_event ''digital_twin_agent'' (DigitalTwinAgent_consent_guard w)
       (DigitalTwinAgent_handle w)"

section \<open>Concrete inputs\<close>

text \<open>
  A small world and an idle process, used to run the definitions on concrete inputs: the
  clock starts at 1000 seconds and advances one second per reading, the broker accepts
  every send, nobody has granted consent, and the time-series store is empty.
\<close>

definition world0 :: world where
  "world0 = \<lparr> clock = (\<lambda>k. 1000 + of_nat k), module_import_time = 0,
      isoformat = (\<lambda>d. case d of
                          Naive t \<Rightarrow> (if t = 0 then ''T0'' else if t = 700 then ''T700'' else ''T'')
                        | Aware t \<Rightarrow> (if t = 0 then ''Z0'' else ''Z'')),
      fromisoformat = (\<lambda>s. if s = ''T0'' then Some (Naive 0)
                            else if s = ''T700'' then Some (Naive 700)
                            else if s = ''Z0'' then Some (Aware 0)
                            else None),
      uuid4 = (\<lambda>k. replicate (Suc k) CHR ''u''),
      broker_accepts = (\<lambda>k. True),
      consent_store = Map.empty,
      float_of_str = (\<lambda>s. None),
      db_select = (\<lambda>u m a b n. Inr []),
      db_insert_ok = (\<lambda>k. True) \<rparr>"

definition agent0 :: agent_state where
  "agent0 = \<lparr> producer_started = True, sent = [], send_attempts = 0, uuids_drawn = 0, logged = [],
       ticks = 0, twins = Map.empty, persistence_tasks = Map.empty, tasks = [],
       db_inserts = 0, db_written = [] \<rparr>"

text \<open>A FHIR observation as the ingestion agent emits it, and a wearable event around it.\<close>

definition obs :: "string \<Rightarrow> json \<Rightarrow> json" where
  "obs name val =
     JObj [(''fhir'', JObj [(''code'', JObj [(''text'', JStr name)]),
                            (''valueQuantity'', JObj [(''value'', val)])])]"

definition wearable_event :: "json \<Rightarrow> json list \<Rightarrow> event" where
  "wearable_event uid items =
     \<lparr> ev_topic = ''ingest.wearables.standardized'', ev_type = ''wearables.standardized'',
       ev_payload = [(''data'', JList items)], ev_user_id = uid,
       ev_correlation_id = JStr ''c-1'', ev_timestamp = ''Z'' \<rparr>"

definition twin_u1 :: TwinState where
  "twin_u1 = TwinState_new (JStr ''u1'') (JStr ''T'') (JStr ''T'')"


text \<open>The same world after user u1 granted personalization without an expiry.\<close>

definition world_u1 :: world where
  "world_u1 =
     world0\<lparr>consent_store :=
              [''u1'' \<mapsto> [''personalization'' \<mapsto>
                          \<lparr>scope = ''all'', granted_at = ''Z'', expires_at = None\<rparr>]]\<rparr>"

text \<open>The same world with the database refusing every INSERT.\<close>

definition world_db_down :: world where
  "world_db_down = world0\<lparr>db_insert_ok := (\<lambda>k. False)\<rparr>"

text \<open>A questionnaire event as \<open>QuestionnaireProcessor.process\<close> publishes it.\<close>

definition questionnaire_event :: event where
  "questionnaire_event =
     \<lparr> ev_topic = ''ingest.questionnaire.standardized'', ev_type = ''questionnaire.standardized'',
       ev_payload = [(''user_id'', JStr ''u1''), (''questionnaire_id'', JStr ''q1'')],
       ev_user_id = JStr ''u1'', ev_correlation_id = JStr ''c-1'', ev_timestamp = ''Z'' \<rparr>"


text \<open>A process in which the twin of u1 is registered.\<close>

definition agent_u1 :: agent_state where
  "agent_u1 = agent0\<lparr>twins := [JStr ''u1'' \<mapsto> twin_u1]\<rparr>"





text \<open>
  A stored snapshot of u1 at version 7 with the given \<open>metrics\<close> sub-object, and a world
  whose store returns it as the latest \<open>twin_state\<close> row.
\<close>

definition stored_state :: "json \<Rightarrow> json" where
  "stored_state metrics_dict =
     JObj [(''user_id'', JStr ''u1''), (''created_at'', JStr ''T0''),
           (''updated_at'', JStr ''T700''), (''metrics'', metrics_dict),
           (''vitality_score'', JNum (6 / 10)), (''biological_age_delta'', JNum (- 1)),
           (''version'', JNum 7), (''last_persistence'', JStr ''T700'')]"

definition world_snapshot :: "json \<Rightarrow> world" where
  "world_snapshot metrics_dict =
     world0\<lparr>db_select :=
              (\<lambda>u m a b n. if u = JStr ''u1'' \<and> m = ''twin_state''
                            then Inr [(Aware 700, JNum (6 / 10),
                                       JObj [(''state'', stored_state metrics_dict),
                                             (''version'', JNum 7),
                                             (''persistence_type'', JStr ''scheduled'')])]
                            else Inr [])\<rparr>"

section \<open>Properties of the event bus\<close>

text \<open>
  Claim C10. The default of \<open>Event.timestamp\<close> is computed once, when the class is
  defined: an event built without a timestamp carries the text of the module-import
  instant, any two such events carry the same timestamp, and the timestamp does not
  depend on what the process clock reads when the event is built. \<open>EventBus.publish\<close>
  builds its event without a timestamp, so every event it sends carries the
  module-import instant, not the instant of the send.
\<close>

theorem Event_timestamp_default_is_import_instant:
  "ev_timestamp (Event w t1 ty1 p1 u1 c1 None) = isoformat w (Aware (module_import_time w))
   \<and> ev_timestamp (Event w t1 ty1 p1 u1 c1 None) = ev_timestamp (Event w t2 ty2 p2 u2 c2 None)
   \<and> ev_timestamp (Event (w\<lparr>clock := c\<rparr>) t1 ty1 p1 u1 c1 None)
       = ev_timestamp (Event w t1 ty1 p1 u1 c1 None)
   \<and> (snd (publish w st topic ty p u corr) = Inr r \<longrightarrow>
        sent (fst (publish w st topic ty p u corr)) \<noteq> []
        \<and> ev_timestamp (last (sent (fst (publish w st topic ty p u corr))))
            = isoformat w (Aware (module_import_time w)))"
  by (simp add: Event_def Event_timestamp_default_def publish_def logger_def Let_def)

theorem Event_timestamp_default_is_import_instant_witness:
  "snd (publish world0 agent0 ''user.twin.updated'' ''twin.updated'' [] JNull (JStr ''c-1''))
     = Inr (JStr ''c-1'')
   \<and> ev_timestamp (last (sent (fst (publish world0 agent0 ''user.twin.updated''
                                        ''twin.updated'' [] JNull (JStr ''c-1'')))))
       = ''Z0''
   \<and> ev_timestamp (last (sent (fst (publish world0 (agent0\<lparr>ticks := 50\<rparr>)
                                        ''user.twin.updated'' ''twin.updated'' [] JNull
                                        (JStr ''c-1'')))))
       = ''Z0''"
proof -
  have a: "snd (publish world0 agent0 ''user.twin.updated'' ''twin.updated'' [] JNull
                  (JStr ''c-1'')) = Inr (JStr ''c-1'')"
    and b: "snd (publish world0 (agent0\<lparr>ticks := 50\<rparr>) ''user.twin.updated'' ''twin.updated''
                   [] JNull (JStr ''c-1'')) = Inr (JStr ''c-1'')"
    by (simp_all add: publish_def world0_def agent0_def logger_def Let_def)
  have i: "isoformat world0 (Aware (module_import_time world0)) = ''Z0''"
    by (simp add: world0_def)
  from Event_timestamp_default_is_import_instant
         [where w = world0 and st = agent0 and topic = "''user.twin.updated''"
            and ty = "''twin.updated''" and p = "[]" and u = JNull and corr = "JStr ''c-1''"] a
  have c: "ev_timestamp (last (sent (fst (publish world0 agent0 ''user.twin.updated''
                                        ''twin.updated'' [] JNull (JStr ''c-1''))))) = ''Z0''"
    unfolding i by blast
  from Event_timestamp_default_is_import_instant
         [where w = world0 and st = "agent0\<lparr>ticks := 50\<rparr>" and topic = "''user.twin.updated''"
            and ty = "''twin.updated''" and p = "[]" and u = JNull and corr = "JStr ''c-1''"] b
  have d: "ev_timestamp (last (sent (fst (publish world0 (agent0\<lparr>ticks := 50\<rparr>)
                                        ''user.twin.updated'' ''twin.updated'' [] JNull
                                        (JStr ''c-1''))))) = ''Z0''"
    unfolding i by blast
  from a c d show ?thesis by blast
qed

section \<open>Properties of the orchestrator\<close>

text \<open>
  Claim C4, as the code has it. For an event on \<open>ingest.wearables.standardized\<close> or
  \<open>ingest.labs.standardized\<close> with a non-empty correlation id, on a started bus whose
  broker accepts the next two sends, the orchestrator publishes exactly two events and
  nothing else: first \<open>user.twin.update.requested\<close> with reason \<open>new_data\<close>, then
  \<open>protocol.generate.requested\<close> with reason \<open>new_data_or_simulation\<close>, both with the
  user id and the correlation id of the triggering event.
\<close>

theorem orchestrator_ingest_routes:
  assumes "ev_topic ev = ''ingest.wearables.standardized''
           \<or> ev_topic ev = ''ingest.labs.standardized''"
    and "truthy (ev_correlation_id ev)"
    and "producer_started st"
    and "broker_accepts w (send_attempts st)"
    and "broker_accepts w (Suc (send_attempts st))"
  shows "sent (Orchestrator_handle_event w st ev) = sent st @
     [Event w ''user.twin.update.requested'' ''twin.update''
        [(''reason'', JStr ''new_data''), (''source_topic'', JStr (ev_topic ev)),
         (''data_meta'', dict_get (ev_payload ev) ''meta'' (JObj []))]
        (ev_user_id ev) (ev_correlation_id ev) None,
      Event w ''protocol.generate.requested'' ''protocol.request''
        [(''reason'', JStr ''new_data_or_simulation''), (''source_topic'', JStr (ev_topic ev)),
         (''user_context_ref'', dict_get (ev_payload ev) ''user_context_ref'' JNull)]
        (ev_user_id ev) (ev_correlation_id ev) None]"
  using assms
  by (auto simp: Orchestrator_handle_event_def handle_event_def BaseAgent_consent_guard_def
      Orchestrator_handle_def trigger_twin_update_def trigger_protocol_refresh_def publish_def
      logger_def Let_def raised_def)

theorem orchestrator_ingest_routes_witness:
  "map ev_topic (sent (Orchestrator_handle_event world0 agent0 (wearable_event (JStr ''u1'') [])))
     = [''user.twin.update.requested'', ''protocol.generate.requested'']
   \<and> map ev_correlation_id
         (sent (Orchestrator_handle_event world0 agent0 (wearable_event (JStr ''u1'') [])))
     = [JStr ''c-1'', JStr ''c-1'']
   \<and> map ev_user_id
         (sent (Orchestrator_handle_event world0 agent0 (wearable_event (JStr ''u1'') [])))
     = [JStr ''u1'', JStr ''u1'']"
  using orchestrator_ingest_routes [of "wearable_event (JStr ''u1'') []" agent0 world0]
  by (simp add: wearable_event_def agent0_def world0_def Event_def)

text \<open>
  The claim as stated also covers \<open>ingest.questionnaire.standardized\<close>. The orchestrator
  neither subscribes to that topic nor has a branch for it: handed such an event it
  publishes nothing.
\<close>

theorem questionnaire_not_routed_counterexample:
  "ev_topic questionnaire_event = ''ingest.questionnaire.standardized''
   \<and> sent (Orchestrator_handle_event world0 agent0 questionnaire_event) = []"
  by (simp add: Orchestrator_handle_event_def handle_event_def BaseAgent_consent_guard_def
      Orchestrator_handle_def questionnaire_event_def agent0_def logger_def Let_def)

section \<open>Properties of the wearable write path\<close>












section \<open>Properties of the vitality score\<close>



section \<open>Properties of persistence scheduling\<close>

lemma should_persist_iff:
  "should_persist w now twin \<longleftrightarrow>
     (last_persistence twin = JNull
      \<or> \<not> (\<exists>s t. last_persistence twin = JStr s \<and> fromisoformat w s = Some (Naive t))
      \<or> (\<exists>s t. last_persistence twin = JStr s \<and> fromisoformat w s = Some (Naive t)
                \<and> 300 \<le> now - t))"
  by (auto simp: should_persist_def persistence_interval_seconds_def
      split: json.splits option.splits datetime.splits)

lemma single_writer_iff:
  "single_writer st \<longleftrightarrow>
     (\<forall>i < length (tasks st). status (tasks st ! i) = Pending
          \<longrightarrow> persistence_tasks st (task_user (tasks st ! i)) = Some i)"
  by (auto simp: single_writer_def list_all_iff)

lemma schedule_skip:
  "\<not> should_persist w (clock w (ticks st)) twin \<Longrightarrow>
   schedule_persistence w (twin, st) = (twin, st\<lparr>ticks := Suc (ticks st)\<rparr>)"
  by (simp add: schedule_persistence_def utcnow_def)

lemma schedule_go:
  assumes "should_persist w (clock w (ticks st)) twin"
  shows "schedule_persistence w (twin, st) =
     (twin\<lparr>last_persistence := JStr (isoformat w (Naive (clock w (ticks st))))\<rparr>,
      st\<lparr>ticks := Suc (ticks st),
         tasks := (case persistence_tasks st (hkey (user_id twin)) of None \<Rightarrow> tasks st
                   | Some i \<Rightarrow> (tasks st)[i := cancel (tasks st ! i)])
                  @ [\<lparr>task_user = hkey (user_id twin), status = Pending\<rparr>],
         persistence_tasks := (persistence_tasks st)(hkey (user_id twin) \<mapsto> length (tasks st))\<rparr>)"
  using assms
  by (auto simp: schedule_persistence_def utcnow_def Let_def split: option.splits)

lemma cancel_not_pending: "status (cancel t) \<noteq> Pending"
  by (simp add: cancel_def)

lemma cancel_user: "task_user (cancel t) = task_user t"
  by (simp add: cancel_def)

lemma schedule_single_writer:
  assumes "single_writer st" and "schedule_persistence w (twin, st) = (twin', st')"
  shows "single_writer st'"
proof (cases "should_persist w (clock w (ticks st)) twin")
  case False
  with assms show ?thesis
    by (auto simp: schedule_skip single_writer_iff)
next
  case True
  let ?k = "hkey (user_id twin)"
  have st': "st' = st\<lparr>ticks := Suc (ticks st),
         tasks := (case persistence_tasks st ?k of None \<Rightarrow> tasks st
                   | Some i \<Rightarrow> (tasks st)[i := cancel (tasks st ! i)])
                  @ [\<lparr>task_user = ?k, status = Pending\<rparr>],
         persistence_tasks := (persistence_tasks st)(?k \<mapsto> length (tasks st))\<rparr>"
    using assms(2) schedule_go[OF True] by simp
  from assms(1) have inv: "\<And>i. i < length (tasks st) \<Longrightarrow> status (tasks st ! i) = Pending
          \<Longrightarrow> persistence_tasks st (task_user (tasks st ! i)) = Some i"
    by (simp add: single_writer_iff)
  show ?thesis
  proof (cases "persistence_tasks st ?k")
    case None
    show ?thesis
      unfolding single_writer_iff st' using None inv
      by (fastforce simp: nth_append less_Suc_eq)
  next
    case (Some i0)
    let ?ts = "(tasks st)[i0 := cancel (tasks st ! i0)]"
    have tasks': "tasks st' = ?ts @ [\<lparr>task_user = ?k, status = Pending\<rparr>]"
      and reg': "persistence_tasks st' = (persistence_tasks st)(?k \<mapsto> length (tasks st))"
      using Some by (simp_all add: st')
    show ?thesis
      unfolding single_writer_iff
    proof (intro allI impI)
      fix j
      assume j: "j < length (tasks st')" and p: "status (tasks st' ! j) = Pending"
      show "persistence_tasks st' (task_user (tasks st' ! j)) = Some j"
      proof (cases "j = length (tasks st)")
        case True
        then show ?thesis by (simp add: tasks' reg' nth_append)
      next
        case False
        with j have jn: "j < length (tasks st)" by (simp add: tasks')
        then have el: "tasks st' ! j = ?ts ! j" by (simp add: tasks' nth_append)
        have "j \<noteq> i0"
          using p el jn by (auto simp: cancel_not_pending)
        then have old: "tasks st' ! j = tasks st ! j" using el by simp
        with p jn have r: "persistence_tasks st (task_user (tasks st ! j)) = Some j"
          using inv by simp
        with Some \<open>j \<noteq> i0\<close> have "task_user (tasks st ! j) \<noteq> ?k" by auto
        then show ?thesis by (simp add: reg' old r)
      qed
    qed
  qed
qed

lemma persist_single_writer:
  assumes "single_writer st"
  shows "single_writer (persist_twin_state w st i)"
  using assms
  by (auto simp: persist_twin_state_def single_writer_iff Let_def logger_def nth_list_update
      split: option.splits if_splits)

lemma persist_failure_resets:
  assumes "i < length (tasks st)" and "status (tasks st ! i) = Pending"
    and "twins st (task_user (tasks st ! i)) = Some tw"
    and "\<not> db_insert_ok w (db_inserts st)"
  shows "twins (persist_twin_state w st i) (task_user (tasks st ! i))
           = Some (tw\<lparr>last_persistence := JNull\<rparr>)"
  using assms by (simp add: persist_twin_state_def Let_def logger_def)

lemma single_writer_unique:
  assumes "single_writer st" and "i < length (tasks st)" and "j < length (tasks st)"
    and "status (tasks st ! i) = Pending" and "status (tasks st ! j) = Pending"
    and "task_user (tasks st ! i) = task_user (tasks st ! j)"
  shows "i = j"
  using assms by (metis option.inject single_writer_iff)

text \<open>
  Claim C7, as the code has it. Let \<open>_schedule_persistence\<close> run on a twin in a process
  whose task registry keeps the single-writer discipline. A task is created if and only
  if the decision \<open>should_persist\<close> is yes, and the decision is yes exactly when no
  persistence timestamp is stored, or the stored value is not a string that parses to a
  naive datetime, or at least 300 seconds have passed since it (five minutes exactly
  already count). When a task is created, the task registered before for the same user
  is no longer pending (it was cancelled unless it had already run), the new task is
  pending and registered in its place, and the twin's marker is set to now. The
  discipline is kept, so no user ever has two pending tasks, and running a task keeps it
  too. A task whose INSERT fails resets the twin's marker to None, after which the
  decision is yes at any time.
\<close>

theorem persistence_scheduling:
  assumes sched: "schedule_persistence w (twin, st) = (twin', st')"
    and inv: "single_writer st"
  shows "(tasks st' \<noteq> tasks st) = should_persist w (clock w (ticks st)) twin
    \<and> should_persist w (clock w (ticks st)) twin =
        (last_persistence twin = JNull
         \<or> \<not> (\<exists>s t. last_persistence twin = JStr s \<and> fromisoformat w s = Some (Naive t))
         \<or> (\<exists>s t. last_persistence twin = JStr s \<and> fromisoformat w s = Some (Naive t)
                   \<and> 300 \<le> clock w (ticks st) - t))
    \<and> (should_persist w (clock w (ticks st)) twin \<longrightarrow>
          (\<forall>i. persistence_tasks st (hkey (user_id twin)) = Some i \<and> i < length (tasks st)
                 \<longrightarrow> status (tasks st' ! i) \<noteq> Pending)
          \<and> length (tasks st') = Suc (length (tasks st))
          \<and> tasks st' ! length (tasks st) = \<lparr>task_user = hkey (user_id twin), status = Pending\<rparr>
          \<and> persistence_tasks st' (hkey (user_id twin)) = Some (length (tasks st))
          \<and> last_persistence twin' = JStr (isoformat w (Naive (clock w (ticks st)))))
    \<and> single_writer st'
    \<and> (\<forall>i j. i < length (tasks st') \<and> j < length (tasks st')
              \<and> status (tasks st' ! i) = Pending \<and> status (tasks st' ! j) = Pending
              \<and> task_user (tasks st' ! i) = task_user (tasks st' ! j) \<longrightarrow> i = j)
    \<and> (\<forall>i. single_writer (persist_twin_state w st' i))
    \<and> (\<forall>i tw now. i < length (tasks st') \<and> status (tasks st' ! i) = Pending
              \<and> twins st' (task_user (tasks st' ! i)) = Some tw
              \<and> \<not> db_insert_ok w (db_inserts st')
          \<longrightarrow> twins (persist_twin_state w st' i) (task_user (tasks st' ! i))
                = Some (tw\<lparr>last_persistence := JNull\<rparr>)
              \<and> should_persist w now (tw\<lparr>last_persistence := JNull\<rparr>))"
proof -
  have a: "(tasks st' \<noteq> tasks st) = should_persist w (clock w (ticks st)) twin"
  proof (cases "should_persist w (clock w (ticks st)) twin")
    case True
    from sched schedule_go[OF True] have "length (tasks st') = Suc (length (tasks st))"
      by (auto split: option.splits)
    then have "tasks st' \<noteq> tasks st" by auto
    with True show ?thesis by simp
  next
    case False
    with sched schedule_skip[OF False] show ?thesis by auto
  qed
  have b: "should_persist w (clock w (ticks st)) twin \<longrightarrow>
          (\<forall>i. persistence_tasks st (hkey (user_id twin)) = Some i \<and> i < length (tasks st)
                 \<longrightarrow> status (tasks st' ! i) \<noteq> Pending)
          \<and> length (tasks st') = Suc (length (tasks st))
          \<and> tasks st' ! length (tasks st) = \<lparr>task_user = hkey (user_id twin), status = Pending\<rparr>
          \<and> persistence_tasks st' (hkey (user_id twin)) = Some (length (tasks st))
          \<and> last_persistence twin' = JStr (isoformat w (Naive (clock w (ticks st))))"
  proof
    assume go: "should_persist w (clock w (ticks st)) twin"
    from sched schedule_go[OF go] show "(\<forall>i. persistence_tasks st (hkey (user_id twin)) = Some i \<and> i < length (tasks st)
                 \<longrightarrow> status (tasks st' ! i) \<noteq> Pending)
          \<and> length (tasks st') = Suc (length (tasks st))
          \<and> tasks st' ! length (tasks st) = \<lparr>task_user = hkey (user_id twin), status = Pending\<rparr>
          \<and> persistence_tasks st' (hkey (user_id twin)) = Some (length (tasks st))
          \<and> last_persistence twin' = JStr (isoformat w (Naive (clock w (ticks st))))"
      by (auto simp: nth_append cancel_not_pending split: option.splits)
  qed
  have c: "single_writer st'"
    using inv sched by (rule schedule_single_writer)
  have d: "\<forall>i j. i < length (tasks st') \<and> j < length (tasks st')
              \<and> status (tasks st' ! i) = Pending \<and> status (tasks st' ! j) = Pending
              \<and> task_user (tasks st' ! i) = task_user (tasks st' ! j) \<longrightarrow> i = j"
    using single_writer_unique[OF c] by blast
  have e: "\<forall>i. single_writer (persist_twin_state w st' i)"
    using persist_single_writer[OF c] by blast
  have f: "\<forall>i tw now. i < length (tasks st') \<and> status (tasks st' ! i) = Pending
              \<and> twins st' (task_user (tasks st' ! i)) = Some tw
              \<and> \<not> db_insert_ok w (db_inserts st')
          \<longrightarrow> twins (persist_twin_state w st' i) (task_user (tasks st' ! i))
                = Some (tw\<lparr>last_persistence := JNull\<rparr>)
              \<and> should_persist w now (tw\<lparr>last_persistence := JNull\<rparr>)"
    by (auto simp: persist_failure_resets should_persist_def)
  from a should_persist_iff[of w "clock w (ticks st)" twin] b c d e f show ?thesis
    by blast
qed

theorem persistence_scheduling_witness:
  "single_writer agent_u1
   \<and> single_writer (snd (schedule_persistence world_db_down (twin_u1, agent_u1)))
   \<and> tasks (snd (schedule_persistence world_db_down (twin_u1, agent_u1)))
       = [\<lparr>task_user = JStr ''u1'', status = Pending\<rparr>]
   \<and> last_persistence (fst (schedule_persistence world_db_down (twin_u1, agent_u1))) = JStr ''T''
   \<and> twins (persist_twin_state world_db_down
               (snd (schedule_persistence world_db_down (twin_u1, agent_u1))) 0) (JStr ''u1'')
       = Some (twin_u1\<lparr>last_persistence := JNull\<rparr>)"
proof -
  let ?st' = "agent_u1\<lparr>ticks := Suc 0,
                tasks := [\<lparr>task_user = JStr ''u1'', status = Pending\<rparr>],
                persistence_tasks := [JStr ''u1'' \<mapsto> 0]\<rparr>"
  have ev: "schedule_persistence world_db_down (twin_u1, agent_u1)
              = (twin_u1\<lparr>last_persistence := JStr ''T''\<rparr>, ?st')"
    by (simp add: schedule_persistence_def utcnow_def should_persist_def world_db_down_def
        world0_def agent_u1_def agent0_def twin_u1_def TwinState_new_def Let_def)
  have sw: "single_writer agent_u1"
    by (simp add: single_writer_def agent_u1_def agent0_def)
  note t = persistence_scheduling [OF ev sw]
  from t have sw': "single_writer ?st'" by blast
  have pre: "0 < length (tasks ?st')" "status (tasks ?st' ! 0) = Pending"
    "twins ?st' (task_user (tasks ?st' ! 0)) = Some twin_u1"
    "\<not> db_insert_ok world_db_down (db_inserts ?st')"
    by (simp_all add: agent_u1_def agent0_def world_db_down_def)
  with t have "twins (persist_twin_state world_db_down ?st' 0) (task_user (tasks ?st' ! 0))
                = Some (twin_u1\<lparr>last_persistence := JNull\<rparr>)"
    by blast
  then have reset: "twins (persist_twin_state world_db_down ?st' 0) (JStr ''u1'')
                = Some (twin_u1\<lparr>last_persistence := JNull\<rparr>)"
    by simp
  from sw sw' reset show ?thesis by (simp add: ev)
qed

text \<open>
  The claim as stated schedules only when the time since the last persistence exceeds
  five minutes. The code compares with \<open>>=\<close>: after exactly 300 seconds (the marker
  reads 700, the clock 1000) a task is scheduled.
\<close>

theorem persistence_boundary_counterexample:
  "fromisoformat world0 ''T700'' = Some (Naive 700)
   \<and> clock world0 (ticks agent_u1) - 700 = 300
   \<and> tasks (snd (schedule_persistence world0
                    (twin_u1\<lparr>last_persistence := JStr ''T700''\<rparr>, agent_u1)))
       = [\<lparr>task_user = JStr ''u1'', status = Pending\<rparr>]"
  by (simp add: schedule_persistence_def utcnow_def should_persist_def
      persistence_interval_seconds_def world0_def agent_u1_def agent0_def twin_u1_def
      TwinState_new_def Let_def)

section \<open>Properties of the digital twin dispatch\<close>

subsection \<open>What each step leaves alone\<close>





lemma trend_step_frame:
  assumes "trend_step w s e (t, st) m = (t', st')"
  shows "version t' = version t \<and> user_id t' = user_id t \<and> metrics t' = metrics t
       \<and> vitality_score t' = vitality_score t \<and> last_persistence t' = last_persistence t
       \<and> biological_age_delta t' = biological_age_delta t
       \<and> ticks st' = ticks st \<and> twins st' = twins st \<and> tasks st' = tasks st
       \<and> persistence_tasks st' = persistence_tasks st \<and> sent st' = sent st
       \<and> send_attempts st' = send_attempts st \<and> producer_started st' = producer_started st"
  using assms
  by (auto simp: trend_step_def logger_def split: sum.splits option.splits json.splits)

lemma trend_steps_frame:
  "foldl (trend_step w s e) (t, st) ms = (t', st') \<Longrightarrow>
   version t' = version t \<and> user_id t' = user_id t \<and> metrics t' = metrics t
       \<and> vitality_score t' = vitality_score t \<and> last_persistence t' = last_persistence t
       \<and> biological_age_delta t' = biological_age_delta t
       \<and> ticks st' = ticks st \<and> twins st' = twins st \<and> tasks st' = tasks st
       \<and> persistence_tasks st' = persistence_tasks st \<and> sent st' = sent st
       \<and> send_attempts st' = send_attempts st \<and> producer_started st' = producer_started st"
proof (induction ms arbitrary: t st)
  case Nil
  then show ?case by simp
next
  case (Cons m ms)
  obtain t1 st1 where s1: "trend_step w s e (t, st) m = (t1, st1)"
    by (cases "trend_step w s e (t, st) m")
  with Cons.prems have "foldl (trend_step w s e) (t1, st1) ms = (t', st')" by simp
  from Cons.IH[OF this] trend_step_frame[OF s1] show ?case by simp
qed

lemma calculate_trends_frame:
  assumes "calculate_trends w (t, st) = (t', st')"
  shows "version t' = version t \<and> user_id t' = user_id t \<and> metrics t' = metrics t
       \<and> vitality_score t' = vitality_score t \<and> last_persistence t' = last_persistence t
       \<and> biological_age_delta t' = biological_age_delta t
       \<and> ticks st' = Suc (ticks st) \<and> twins st' = twins st \<and> tasks st' = tasks st
       \<and> persistence_tasks st' = persistence_tasks st \<and> sent st' = sent st
       \<and> send_attempts st' = send_attempts st \<and> producer_started st' = producer_started st"
proof -
  let ?st1 = "st\<lparr>ticks := Suc (ticks st)\<rparr>"
  from assms obtain s e where
    "foldl (trend_step w s e) (t, ?st1) metrics_to_trend = (t', st')"
    by (auto simp: calculate_trends_def utcnow_def Let_def)
  from trend_steps_frame[OF this] show ?thesis by simp
qed







subsection \<open>Independence of the consent store\<close>

text \<open>The consent store is read by \<open>check\<close> and by nothing else.\<close>

lemma cs_Event [simp]: "Event (w\<lparr>consent_store := cs\<rparr>) = Event w"
  by (intro ext) (simp add: Event_def Event_timestamp_default_def split: option.splits)

lemma cs_publish [simp]: "publish (w\<lparr>consent_store := cs\<rparr>) = publish w"
  by (intro ext) (simp add: publish_def)

lemma cs_py_float [simp]: "py_float (w\<lparr>consent_store := cs\<rparr>) v = py_float w v"
  by (cases v) simp_all

lemma cs_update_metric [simp]: "update_metric (w\<lparr>consent_store := cs\<rparr>) = update_metric w"
  by (intro ext) (auto simp: update_metric_def split: sum.splits bool.splits)

lemma cs_update_from_item [simp]: "update_from_item (w\<lparr>consent_store := cs\<rparr>) = update_from_item w"
  by (intro ext) (simp add: update_from_item_def Let_def split: json.splits option.splits)

lemma cs_update_items [simp]: "update_items (w\<lparr>consent_store := cs\<rparr>) m items = update_items w m items"
  by (induction items arbitrary: m) (simp_all split: sum.splits)

lemma cs_update_from_wearables [simp]:
  "update_from_wearables (w\<lparr>consent_store := cs\<rparr>) = update_from_wearables w"
  by (intro ext) (simp add: update_from_wearables_def split: json.splits)

lemma cs_ts_query [simp]: "ts_query (w\<lparr>consent_store := cs\<rparr>) = ts_query w"
  by (intro ext) (simp add: ts_query_def split: sum.splits)

lemma cs_utcnow [simp]: "utcnow (w\<lparr>consent_store := cs\<rparr>) = utcnow w"
  by (intro ext) (simp add: utcnow_def)

lemma cs_collect_points [simp]:
  "collect_points (w\<lparr>consent_store := cs\<rparr>) ds ts vs = collect_points w ds ts vs"
  by (induction ds arbitrary: ts vs) (simp_all split: option.splits json.splits)

lemma cs_trend_value [simp]: "trend_value (w\<lparr>consent_store := cs\<rparr>) = trend_value w"
  by (intro ext) (simp add: trend_value_def split: sum.splits)

lemma cs_trend_step [simp]: "trend_step (w\<lparr>consent_store := cs\<rparr>) = trend_step w"
  by (intro ext) (simp add: trend_step_def split: prod.splits sum.splits option.splits json.splits)

lemma cs_calculate_trends [simp]: "calculate_trends (w\<lparr>consent_store := cs\<rparr>) = calculate_trends w"
  by (intro ext) (simp add: calculate_trends_def split: prod.splits)

lemma cs_should_persist [simp]: "should_persist (w\<lparr>consent_store := cs\<rparr>) = should_persist w"
  by (intro ext) (simp add: should_persist_def split: json.splits option.splits datetime.splits)

lemma cs_schedule_persistence [simp]:
  "schedule_persistence (w\<lparr>consent_store := cs\<rparr>) = schedule_persistence w"
  by (intro ext) (simp add: schedule_persistence_def split: prod.splits)

lemma cs_load_twin_state [simp]: "load_twin_state (w\<lparr>consent_store := cs\<rparr>) = load_twin_state w"
  by (intro ext) (simp add: load_twin_state_def split: sum.splits option.splits)

lemma cs_get_or_create_twin [simp]:
  "get_or_create_twin (w\<lparr>consent_store := cs\<rparr>) = get_or_create_twin w"
  by (intro ext) (simp add: get_or_create_twin_def split: prod.splits option.splits)

lemma cs_recalculate_twin [simp]: "recalculate_twin (w\<lparr>consent_store := cs\<rparr>) = recalculate_twin w"
  by (intro ext) (simp add: recalculate_twin_def cong: prod.case_cong json.case_cong if_cong)

lemma cs_apply_update [simp]: "apply_update (w\<lparr>consent_store := cs\<rparr>) = apply_update w"
  by (intro ext) (simp add: apply_update_def)

lemma cs_touch [simp]: "touch (w\<lparr>consent_store := cs\<rparr>) = touch w"
  by (intro ext) (simp add: touch_def Let_def split: prod.splits sum.splits)

lemma cs_announce [simp]: "announce (w\<lparr>consent_store := cs\<rparr>) = announce w"
  by (intro ext) (simp add: announce_def Let_def split: prod.splits sum.splits)




lemma check_frame:
  assumes "check w st uid p = (st', r)"
  shows "twins st' = twins st \<and> tasks st' = tasks st \<and> persistence_tasks st' = persistence_tasks st
    \<and> sent st' = sent st \<and> logged st' = logged st \<and> send_attempts st' = send_attempts st
    \<and> db_written st' = db_written st \<and> (ticks st' = ticks st \<or> ticks st' = Suc (ticks st))"
  using assms
  by (auto simp: check_def utcnow_def split: if_splits option.splits datetime.splits json.splits)

lemma check_no_record:
  assumes "consent_store w u = None \<or> (\<exists>ps. consent_store w u = Some ps \<and> ps p = None)"
  shows "check w st (JStr u) p = (st, Inr False)"
  using assms by (auto simp: check_def)

lemma floor_rat_numeral: "\<lfloor>numeral a / numeral b :: rat\<rfloor> = numeral a div numeral b"
  using floor_divide_of_int_eq[of "numeral a" "numeral b", where ?'a = rat] by simp

lemma check_logger:
  "check w (logger lv m st) uid p = (logger lv m (fst (check w st uid p)), snd (check w st uid p))"
  by (auto simp: check_def utcnow_def logger_def split: option.splits datetime.splits json.splits)

lemma seq_step: "r = (c, None) \<Longrightarrow> f c = r' \<Longrightarrow> seq r f = r'"
  by (simp add: seq_def)

lemma on_twin_step: "f t = (t', e) \<Longrightarrow> on_twin f (t, st) = ((t', st), e)"
  by (simp add: on_twin_def)


lemmas eval_defs =
  DigitalTwinAgent_handle_event_def handle_event_def DigitalTwinAgent_consent_guard_def
  check_def DigitalTwinAgent_handle_def get_or_create_twin_def load_twin_state_def ts_query_def
  twin_of_rows_def utcnow_def TwinState_new_def HealthMetrics_default_def seq_def on_twin_def
  apply_update_def update_from_wearables_def update_from_item_def update_metric_def
  calculate_vitality_score_def vitality_def weight_def VITALITY_WEIGHTS_def
  calculate_trends_def trend_step_def trend_value_def metrics_to_trend_def
  touch_def arith_def schedule_persistence_def should_persist_def announce_def publish_def
  Event_def Event_timestamp_default_def logger_def py_or_def dict_get_def nonempty_def
  py_round_def round_half_even_def asdict_metrics_def raised_def lower_def lower_char_def
  floor_rat_numeral on_error_def world0_def agent0_def wearable_event_def obs_def Let_def

subsection \<open>The consent gate\<close>

text \<open>
  Claim C1, as the code has it. An inbound event whose \<open>user_id\<close> is a non-empty string
  U for which the consent store answers False to \<open>check(U, "personalization")\<close> is
  dropped at the dispatch boundary: the handler does not run, so the registry of twins
  (and with it every version), the published events, the persistence tasks and the
  stored rows are what they were, and the log gains exactly the receipt record and one
  record at warning level.
\<close>

theorem consent_gate_drops_event:
  assumes "ev_user_id ev = JStr U" and "U \<noteq> []"
    and "snd (check w st (JStr U) ''personalization'') = Inr False"
  shows "twins (DigitalTwinAgent_handle_event w st ev) = twins st
       \<and> sent (DigitalTwinAgent_handle_event w st ev) = sent st
       \<and> tasks (DigitalTwinAgent_handle_event w st ev) = tasks st
       \<and> persistence_tasks (DigitalTwinAgent_handle_event w st ev) = persistence_tasks st
       \<and> db_written (DigitalTwinAgent_handle_event w st ev) = db_written st
       \<and> logged (DigitalTwinAgent_handle_event w st ev) =
           logged st @ [(DEBUG, ''digital_twin_agent received event''),
                        (WARNING, ''digital_twin_agent consent guard blocked event'')]"
proof -
  obtain st1 r where c: "check w st (JStr U) ''personalization'' = (st1, r)"
    by (cases "check w st (JStr U) ''personalization''")
  with assms(3) have r: "r = Inr False" by simp
  have res: "DigitalTwinAgent_handle_event w st ev =
          logger WARNING ''digital_twin_agent consent guard blocked event''
            (logger DEBUG ''digital_twin_agent received event'' st1)"
    using assms(1,2) c r
    by (simp add: DigitalTwinAgent_handle_event_def handle_event_def
        DigitalTwinAgent_consent_guard_def check_logger)
  from check_frame[OF c] show ?thesis
    unfolding res by (simp add: logger_def)
qed


theorem consent_gate_drops_event_witness:
  "snd (check world0 agent0 (JStr ''u1'') ''personalization'') = Inr False
   \<and> sent (DigitalTwinAgent_handle_event world0 agent0
              (wearable_event (JStr ''u1'') [obs ''hrv'' (JNum 45)])) = []
   \<and> twins (DigitalTwinAgent_handle_event world0 agent0
               (wearable_event (JStr ''u1'') [obs ''hrv'' (JNum 45)])) (JStr ''u1'') = None
   \<and> logged (DigitalTwinAgent_handle_event world0 agent0
                (wearable_event (JStr ''u1'') [obs ''hrv'' (JNum 45)]))
       = [(DEBUG, ''digital_twin_agent received event''),
          (WARNING, ''digital_twin_agent consent guard blocked event'')]"
proof -
  have c: "snd (check world0 agent0 (JStr ''u1'') ''personalization'') = Inr False"
    by (simp add: check_def world0_def)
  have u: "ev_user_id (wearable_event (JStr ''u1'') [obs ''hrv'' (JNum 45)]) = JStr ''u1''"
    by (simp add: wearable_event_def)
  have n: "''u1'' \<noteq> []" by simp
  from consent_gate_drops_event [OF u n c] c show ?thesis
    by (simp add: agent0_def)
qed

text \<open>
  The claim as stated covers every user id. The guard tests \<open>not event.user_id\<close>, so an
  event whose user id is the empty string passes without the store being asked, although
  the store has no consent for it: the handler runs under the identity \<open>unknown\<close>,
  bumps that twin's version and publishes.
\<close>

theorem consent_gate_empty_user_id_counterexample:
  "snd (check world0 agent0 (JStr []) ''personalization'') = Inr False
   \<and> map ev_topic (sent (DigitalTwinAgent_handle_event world0 agent0
                            (wearable_event (JStr []) [])))
       = [''user.twin.updated'']
   \<and> map_option version
        (twins (DigitalTwinAgent_handle_event world0 agent0 (wearable_event (JStr []) []))
           (JStr ''unknown'')) = Some (JNum 2)"
  by (simp add: eval_defs)

subsection \<open>The end-to-end scenario\<close>

text \<open>
  Claim C3, as the code has it. A wearable event for user u1 whose \<open>data\<close> holds one FHIR
  observation with code text \<open>hrv\<close> and value 45, with personalization granted without
  expiry, for a user with no twin in memory and no stored snapshot, on a started bus
  whose broker accepts the send: the twin of u1 has HRV 45, the recomputed vitality
  score 0.573125 and version 2 (a new twin starts at version 1 and every handled event
  adds one), and exactly one event is published, on \<open>user.twin.updated\<close>, for u1, with
  the score rounded to 0.573 and \<open>version\<close> 2.
\<close>

theorem first_hrv_event_end_to_end:
  assumes topic: "ev_topic ev = ''ingest.wearables.standardized''"
    and uid: "ev_user_id ev = JStr ''u1''"
    and data: "dict_get (ev_payload ev) ''data'' (JList []) = JList [obs ''hrv'' (JNum 45)]"
    and consent: "consent_store w ''u1'' = Some ps" "ps ''personalization'' = Some r"
                 "expires_at r = None"
    and fresh: "twins st (JStr ''u1'') = None"
               "db_select w (JStr ''u1'') ''twin_state'' None None 1 = Inr []"
    and bus: "producer_started st" "broker_accepts w (send_attempts st)"
  shows "(\<exists>t. twins (DigitalTwinAgent_handle_event w st ev) (JStr ''u1'') = Some t
              \<and> hrv (metrics t) = JNum 45
              \<and> vitality_score t = JNum (573125 / 1000000)
              \<and> version t = JNum 2)
       \<and> (\<exists>e. sent (DigitalTwinAgent_handle_event w st ev) = sent st @ [e]
              \<and> ev_topic e = ''user.twin.updated''
              \<and> ev_user_id e = JStr ''u1''
              \<and> map_of (ev_payload e) ''vitality_score'' = Some (JNum (573 / 1000))
              \<and> map_of (ev_payload e) ''version'' = Some (JNum 2))"
proof -
  let ?st0 = "logger DEBUG ''digital_twin_agent received event'' st"
  let ?now = "JStr (isoformat w (Naive (clock w (ticks st))))"
  let ?t0 = "TwinState_new (JStr ''u1'') ?now ?now"
  let ?st1 = "?st0\<lparr>ticks := Suc (ticks st), twins := (twins st)(JStr ''u1'' \<mapsto> ?t0)\<rparr>"
  let ?t1 = "?t0\<lparr>metrics := HealthMetrics_default\<lparr>hrv := JNum 45\<rparr>\<rparr>"
  let ?t2 = "?t1\<lparr>vitality_score := JNum (573125 / 1000000)\<rparr>"
  have guard: "DigitalTwinAgent_consent_guard w ?st0 ev = (?st0, Inr True)"
    using uid consent by (simp add: DigitalTwinAgent_consent_guard_def check_def nonempty_def)
  have ident: "py_or (py_or (ev_user_id ev) (dict_get (ev_payload ev) ''user_id'' JNull))
                  (JStr ''unknown'') = JStr ''u1''"
    using uid by (simp add: py_or_def)
  have goc: "get_or_create_twin w ?st0 (JStr ''u1'') = (?st1, Inr ?t0)"
    using fresh
    by (simp add: get_or_create_twin_def load_twin_state_def ts_query_def nonempty_def
        twin_of_rows_def utcnow_def logger_def Let_def)
  have upd: "apply_update w ev (?t0, ?st1) = ((?t1, ?st1), None)"
    using topic data
    by (simp add: apply_update_def on_twin_def update_from_wearables_def obs_def
        update_from_item_def dict_get_def lower_def lower_char_def update_metric_def
        TwinState_new_def)
  have vit: "calculate_vitality_score ?t1 = (?t2, None)"
    by (simp add: calculate_vitality_score_def vitality_def weight_def VITALITY_WEIGHTS_def
        HealthMetrics_default_def TwinState_new_def Let_def)
  obtain t3 st3 where ct: "calculate_trends w (?t2, ?st1) = (t3, st3)"
    by (cases "calculate_trends w (?t2, ?st1)")
  note fr = calculate_trends_frame[OF ct]
  from fr have t3: "version t3 = JNum 1" "metrics t3 = HealthMetrics_default\<lparr>hrv := JNum 45\<rparr>"
    "vitality_score t3 = JNum (573125 / 1000000)" "last_persistence t3 = JNull"
    "biological_age_delta t3 = JNum 0" "user_id t3 = JStr ''u1''"
    by (simp_all add: TwinState_new_def)
  from fr bus have st3: "producer_started st3" "send_attempts st3 = send_attempts st"
    "sent st3 = sent st"
    by (simp_all add: logger_def)
  let ?t4 = "t3\<lparr>updated_at := JStr (isoformat w (Naive (clock w (ticks st3)))), version := JNum 2\<rparr>"
  let ?st4 = "st3\<lparr>ticks := Suc (ticks st3)\<rparr>"
  have tch: "touch w (t3, st3) = ((?t4, ?st4), None)"
    using t3 by (simp add: touch_def utcnow_def arith_def Let_def)
  obtain t5 st5 where sp: "schedule_persistence w (?t4, ?st4) = (t5, st5)"
    by (cases "schedule_persistence w (?t4, ?st4)")
  have t5: "version t5 = JNum 2" "metrics t5 = HealthMetrics_default\<lparr>hrv := JNum 45\<rparr>"
    "vitality_score t5 = JNum (573125 / 1000000)" "biological_age_delta t5 = JNum 0"
    and st5: "producer_started st5" "send_attempts st5 = send_attempts st" "sent st5 = sent st"
    using sp t3 st3
    by (auto simp: schedule_persistence_def utcnow_def Let_def should_persist_def split: option.splits)
  let ?e = "Event w ''user.twin.updated'' ''twin.updated''
             [(''user_id'', JStr ''u1''),
              (''vitality_score'', JNum (py_round (573125 / 1000000) 3)),
              (''biological_age_delta'', JNum (py_round 0 1)),
              (''metrics'', asdict_metrics (metrics t5)),
              (''trends'', trend_indicators t5),
              (''version'', version t5)]
             (JStr ''u1'')
             (if truthy (ev_correlation_id ev) then ev_correlation_id ev
              else JStr (uuid4 w (uuids_drawn (logger INFO ''AUDIT twin.updated'' st5))))
             None"
  have "\<exists>st6. announce w (JStr ''u1'') ev (t5, st5) = ((t5, st6), None)
              \<and> sent st6 = sent st @ [?e]"
    using t5 st5 bus
    by (cases "truthy (ev_correlation_id ev)")
       (simp_all add: announce_def arith_def publish_def logger_def Let_def raised_def)
  then obtain st6 where ann: "announce w (JStr ''u1'') ev (t5, st5) = ((t5, st6), None)"
    and sent6: "sent st6 = sent st @ [?e]"
    by blast
  have h1: "seq (apply_update w ev (?t0, ?st1)) (on_twin calculate_vitality_score)
              = ((?t2, ?st1), None)"
    by (rule seq_step[OF upd]) (rule on_twin_step[of calculate_vitality_score, OF vit])
  have h2: "seq (seq (apply_update w ev (?t0, ?st1)) (on_twin calculate_vitality_score))
              (\<lambda>c. (calculate_trends w c, None)) = ((t3, st3), None)"
    by (rule seq_step[OF h1]) (simp only: ct)
  have h3: "seq (seq (seq (apply_update w ev (?t0, ?st1)) (on_twin calculate_vitality_score))
              (\<lambda>c. (calculate_trends w c, None))) (touch w) = ((?t4, ?st4), None)"
    by (rule seq_step[OF h2]) (rule tch)
  have h4: "seq (seq (seq (seq (apply_update w ev (?t0, ?st1)) (on_twin calculate_vitality_score))
              (\<lambda>c. (calculate_trends w c, None))) (touch w))
              (\<lambda>c. (schedule_persistence w c, None)) = ((t5, st5), None)"
    by (rule seq_step[OF h3]) (simp only: sp)
  have h5: "seq (seq (seq (seq (seq (apply_update w ev (?t0, ?st1))
              (on_twin calculate_vitality_score))
              (\<lambda>c. (calculate_trends w c, None))) (touch w))
              (\<lambda>c. (schedule_persistence w c, None))) (announce w (JStr ''u1'') ev)
              = ((t5, st6), None)"
    by (rule seq_step[OF h4]) (rule ann)
  have h: "DigitalTwinAgent_handle w ?st0 ev = (st6\<lparr>twins := (twins st6)(JStr ''u1'' \<mapsto> t5)\<rparr>, None)"
    unfolding DigitalTwinAgent_handle_def Let_def ident
    by (simp only: goc prod.case sum.case h5 hkey.simps)
  have res: "DigitalTwinAgent_handle_event w st ev = st6\<lparr>twins := (twins st6)(JStr ''u1'' \<mapsto> t5)\<rparr>"
    by (simp add: DigitalTwinAgent_handle_event_def handle_event_def guard h)
  have r3: "py_round (917 / 1600) 3 = 573 / 1000"
    by (simp add: py_round_def round_half_even_def Let_def floor_rat_numeral)
  show ?thesis
    unfolding res using t5 sent6 by (simp add: Event_def r3)
qed

theorem first_hrv_event_end_to_end_witness:
  "(\<exists>t. twins (DigitalTwinAgent_handle_event world_u1 agent0
                  (wearable_event (JStr ''u1'') [obs ''hrv'' (JNum 45)])) (JStr ''u1'') = Some t
        \<and> hrv (metrics t) = JNum 45
        \<and> vitality_score t = JNum (573125 / 1000000)
        \<and> version t = JNum 2)
   \<and> (\<exists>e. sent (DigitalTwinAgent_handle_event world_u1 agent0
                    (wearable_event (JStr ''u1'') [obs ''hrv'' (JNum 45)])) = [e]
        \<and> ev_topic e = ''user.twin.updated''
        \<and> ev_user_id e = JStr ''u1''
        \<and> map_of (ev_payload e) ''vitality_score'' = Some (JNum (573 / 1000))
        \<and> map_of (ev_payload e) ''version'' = Some (JNum 2))"
proof -
  let ?ev = "wearable_event (JStr ''u1'') [obs ''hrv'' (JNum 45)]"
  let ?r = "\<lparr>scope = ''all'', granted_at = ''Z'', expires_at = None\<rparr>"
  have 1: "ev_topic ?ev = ''ingest.wearables.standardized''"
    and 2: "ev_user_id ?ev = JStr ''u1''"
    and 3: "dict_get (ev_payload ?ev) ''data'' (JList []) = JList [obs ''hrv'' (JNum 45)]"
    by (simp_all add: wearable_event_def dict_get_def)
  have 4: "consent_store world_u1 ''u1'' = Some [''personalization'' \<mapsto> ?r]"
    and 5: "[''personalization'' \<mapsto> ?r] ''personalization'' = Some ?r"
    and 6: "expires_at ?r = None"
    by (simp_all add: world_u1_def)
  have 7: "twins agent0 (JStr ''u1'') = None"
    and 8: "db_select world_u1 (JStr ''u1'') ''twin_state'' None None 1 = Inr []"
    and 9: "producer_started agent0"
    and 10: "broker_accepts world_u1 (send_attempts agent0)"
    by (simp_all add: agent0_def world_u1_def world0_def)
  have s: "sent agent0 = []" by (simp add: agent0_def)
  from first_hrv_event_end_to_end [OF 1 2 3 4 5 6 7 8 9 10] show ?thesis
    unfolding s by simp
qed

text \<open>
  The claim as stated publishes \<open>version=1\<close>. Run on the scenario's own input, the
  first event of a new user is published with version 2.
\<close>

theorem first_event_version_counterexample:
  "map ev_topic (sent (DigitalTwinAgent_handle_event world_u1 agent0
                         (wearable_event (JStr ''u1'') [obs ''hrv'' (JNum 45)])))
     = [''user.twin.updated'']
   \<and> map_of (ev_payload (hd (sent (DigitalTwinAgent_handle_event world_u1 agent0
                                    (wearable_event (JStr ''u1'') [obs ''hrv'' (JNum 45)])))))
        ''version'' = Some (JNum 2)"
  by (simp add: eval_defs world_u1_def)

subsection \<open>Events without a user id\<close>



section \<open>Properties of the trend computation\<close>

subsection \<open>The stored value is a least-squares slope\<close>








subsection \<open>Rounding stays within the bounds\<close>




subsection \<open>When an entry is written\<close>







section \<open>Properties of snapshot loading\<close>

lemma HealthMetrics_kwargs_unknown_key:
  assumes "(k, v) \<in> set d" and "k \<notin> set HealthMetrics_fields"
  shows "HealthMetrics_kwargs (JObj d) = None"
proof -
  from assms have "\<not> list_all (\<lambda>k. k \<in> set HealthMetrics_fields) (map fst d)"
    by (force simp: list_all_iff)
  then show ?thesis by (simp add: HealthMetrics_kwargs_def)
qed

text \<open>
  Claim C8 asks that a malformed sub-object of a stored snapshot be rejected or ignored
  field by field, the rest of the snapshot still being applied. The code does not do
  that, although its comment announces a reconstruction with validation. Here the code
  runs on a stored snapshot of u1 at version 7 with HRV 50 whose \<open>metrics\<close> sub-object
  has one key that is not a field, \<open>vo2_max\<close>: the constructor call raises, the load
  logs an error and returns no twin, and the twin is created from the defaults (version
  1, HRV 35). Without the extra key the same snapshot loads with version 7 and HRV 50.
  A value of the wrong type under a known key, HRV \<open>high\<close>, is neither rejected nor
  ignored: it is loaded as it is.
\<close>

theorem snapshot_unknown_metric_key_fails_load:
  "snd (load_twin_state (world_snapshot (JObj [(''hrv'', JNum 50), (''vo2_max'', JNum 41)]))
          agent0 (JStr ''u1'')) = None
   \<and> logged (fst (load_twin_state
                    (world_snapshot (JObj [(''hrv'', JNum 50), (''vo2_max'', JNum 41)]))
                    agent0 (JStr ''u1''))) = [(ERROR, ''Failed to load twin state'')]
   \<and> snd (get_or_create_twin
             (world_snapshot (JObj [(''hrv'', JNum 50), (''vo2_max'', JNum 41)]))
             agent0 (JStr ''u1''))
       = Inr (TwinState_new (JStr ''u1'') (JStr ''T'') (JStr ''T''))
   \<and> map_option version
        (snd (load_twin_state (world_snapshot (JObj [(''hrv'', JNum 50)])) agent0 (JStr ''u1'')))
       = Some (JNum 7)
   \<and> map_option hrv (map_option metrics
        (snd (load_twin_state (world_snapshot (JObj [(''hrv'', JNum 50)])) agent0 (JStr ''u1''))))
       = Some (JNum 50)
   \<and> map_option hrv (map_option metrics
        (snd (load_twin_state (world_snapshot (JObj [(''hrv'', JStr ''high'')])) agent0
                (JStr ''u1''))))
       = Some (JStr ''high'')"
  by (simp add: load_twin_state_def get_or_create_twin_def ts_query_def nonempty_def
      twin_of_rows_def HealthMetrics_kwargs_def HealthMetrics_fields_def dict_get_def
      world_snapshot_def stored_state_def world0_def agent0_def logger_def utcnow_def
      HealthMetrics_default_def Let_def)

end
